theory Spec2Isabelle
  imports Complex_Main "HOL-Library.AList"
begin

section \<open>The SPL framework: a three-layer decision pipeline\<close>

text \<open>
  A shallow embedding of the package \<^verbatim>\<open>spl\<close>: the validation layer
  (\<^verbatim>\<open>layer0_reactive.py\<close>), the pattern layer (\<^verbatim>\<open>layer1_tactical.py\<close>), the
  deliberative layer (\<^verbatim>\<open>layer2_deliberative.py\<close>), the cost ledger
  (\<^verbatim>\<open>cost_tracker.py\<close>) and the orchestrator (\<^verbatim>\<open>agent.py\<close>).

  Conventions of the embedding.
  \<^item> A confidence, a threshold and the cost of a decision are finite floats, each a
    \<^typ>\<open>real\<close>, compared and added exactly; rounding is not modelled. The tracker takes
    any \<^verbatim>\<open>float\<close>, and its costs are values of the type \<open>pyfloat\<close>, with the
    infinities, NaN and overflow.
  \<^item> A Python \<^verbatim>\<open>str\<close> is a \<^typ>\<open>string\<close> of ASCII characters; \<^verbatim>\<open>lower()\<close> maps the
    letters A to Z and leaves every other character alone. A \<^verbatim>\<open>str\<close> can also hold a
    lone surrogate, which \<^verbatim>\<open>encode()\<close> refuses: whether a string can be encoded is a
    parameter of the model (\<open>str_encode\<close>), as the library functions are.
  \<^item> A method that mutates its object takes the object and returns the new one; an
    exception is a value \<open>Inl e\<close>, returned together with the state reached when it
    was raised.
  \<^item> An insertion-ordered \<^verbatim>\<open>dict\<close> whose order the code observes is an association list
    (\<^const>\<open>AList.update\<close> overwrites in place or appends); one whose order it never
    observes is a map.
  \<^item> Attributes of different classes that share a name carry a short prefix
    (\<open>p_category\<close> of a Pattern, \<open>m_category\<close> of a PatternMatchResult, ...); the
    attributes of \<open>Decision\<close> keep their names, but for \<open>d_method\<close> (its \<^verbatim>\<open>method\<close>
    is a keyword of Isabelle). A leading underscore is dropped.
  \<^item> The clock (\<^verbatim>\<open>datetime.now()\<close>) is a parameter \<open>now\<close>, in seconds.
\<close>

subsection \<open>Values, exceptions and the library\<close>

text \<open>
  A request is a \<^verbatim>\<open>Dict[str, Any]\<close>. Of the values a field can hold, the pipeline tells a
  string from a non-string (\<^verbatim>\<open>isinstance(content, str)\<close>) and a hashable value from an
  unhashable one (\<^verbatim>\<open>user_id not in self.rate_limits\<close> raises \<^verbatim>\<open>TypeError\<close> on a list).
\<close>

datatype pyval = PyStr string | PyInt int | PyNone | PyList "pyval list"

type_synonym request = "string \<rightharpoonup> pyval"

fun hashable :: "pyval \<Rightarrow> bool" where
  "hashable (PyList xs) = False"
| "hashable v = True"

text \<open>\<^verbatim>\<open>d.get(key, default)\<close>.\<close>

definition dict_get :: "('k \<rightharpoonup> 'v) \<Rightarrow> 'k \<Rightarrow> 'v \<Rightarrow> 'v" where
  "dict_get d k dflt = (case d k of None \<Rightarrow> dflt | Some v \<Rightarrow> v)"

text \<open>
  The exceptions the pipeline can meet: \<open>TypeError\<close> (hashing an unhashable user id),
  \<open>AttributeError\<close> (\<^verbatim>\<open>lower()\<close> on a non-string), \<open>UnicodeEncodeError\<close> (encoding a
  string that holds a lone surrogate) and \<open>EngineError\<close>, any exception of the
  regular-expression engine other than \<^verbatim>\<open>re.error\<close> (a repetition count too large raises
  \<^verbatim>\<open>OverflowError\<close>), which \<^verbatim>\<open>except re.error\<close> does not catch.
\<close>

datatype exn = TypeError | AttributeError | UnicodeEncodeError | EngineError

text \<open>
  The library functions of the pattern layer are parameters of the model:
  \<open>re_search regex text\<close> is \<^verbatim>\<open>re.search(regex, text, re.IGNORECASE)\<close>, which finds a
  match, finds none, raises \<^verbatim>\<open>re.error\<close> or raises something else; \<open>str_encode s\<close> is
  \<^verbatim>\<open>s.encode()\<close>, the UTF-8 bytes of a string, or \<open>None\<close> when it raises
  \<^verbatim>\<open>UnicodeEncodeError\<close>; \<open>sha256_hex\<close> is \<^verbatim>\<open>hashlib.sha256(bytes).hexdigest()\<close>.
\<close>

datatype search_outcome = Found | NotFound | ReError | OtherError

record env =
  re_search :: "string \<Rightarrow> string \<Rightarrow> search_outcome"
  str_encode :: "string \<Rightarrow> string option"
  sha256_hex :: "string \<Rightarrow> string"

subsection \<open>Strings\<close>

definition lower_char :: "char \<Rightarrow> char" where
  "lower_char c =
     (case map_of (zip ''ABCDEFGHIJKLMNOPQRSTUVWXYZ'' ''abcdefghijklmnopqrstuvwxyz'') c of
        Some l \<Rightarrow> l
      | None \<Rightarrow> c)"

definition lower :: "string \<Rightarrow> string" where
  "lower s = map lower_char s"

text \<open>\<^verbatim>\<open>sub in text\<close> on strings: \<open>sub\<close> occurs in \<open>text\<close> as a contiguous run.\<close>

fun starts_with :: "string \<Rightarrow> string \<Rightarrow> bool" where
  "starts_with s [] = True"
| "starts_with [] (p # ps) = False"
| "starts_with (c # cs) (p # ps) = (c = p \<and> starts_with cs ps)"

fun str_in :: "string \<Rightarrow> string \<Rightarrow> bool" where
  "str_in sub [] = (sub = [])"
| "str_in sub (c # cs) = (starts_with (c # cs) sub \<or> str_in sub cs)"

text \<open>
  \<^verbatim>\<open>str.split()\<close> with no argument: the maximal runs of non-whitespace characters.
  The whitespace of the ASCII range is TAB, LF, VT, FF, CR, the separators 0x1C to 0x1F and
  the space.
\<close>

definition is_space :: "char \<Rightarrow> bool" where
  "is_space c = ((of_char c :: nat) \<in> {9, 10, 11, 12, 13, 28, 29, 30, 31, 32})"

fun split_from :: "string \<Rightarrow> string \<Rightarrow> string list" where
  "split_from cur [] = (if cur = [] then [] else [cur])"
| "split_from cur (c # cs) =
     (if is_space c then (if cur = [] then split_from [] cs else cur # split_from [] cs)
      else split_from (cur @ [c]) cs)"

definition split_ws :: "string \<Rightarrow> string list" where
  "split_ws s = split_from [] s"

text \<open>\<^verbatim>\<open>str(n)\<close> for an integer, as the f-strings of the rejection reasons print it.\<close>

function str_of_nat :: "nat \<Rightarrow> string" where
  "str_of_nat n =
     (if n < 10 then [''0123456789'' ! n]
      else str_of_nat (n div 10) @ [''0123456789'' ! (n mod 10)])"
  by pat_completeness auto
termination
  by (relation "measure id") auto

declare str_of_nat.simps [simp del]

definition str_of_int :: "int \<Rightarrow> string" where
  "str_of_int i = (if i < 0 then CHR ''-'' # str_of_nat (nat (- i)) else str_of_nat (nat i))"

subsection \<open>Layer 0: the validation stage\<close>

record ValidationResult =
  valid :: bool
  v_reason :: "string option"
  rejected :: bool

text \<open>An entry of \<^verbatim>\<open>rate_limits\<close>: the dict \<^verbatim>\<open>{'count': ..., 'window_start': ...}\<close>.\<close>

record rate_entry =
  count :: int
  window_start :: real

text \<open>
  The blocklist is a \<^verbatim>\<open>set\<close> of strings; the list is the order in which the loop of
  \<open>validate\<close> meets its members.
\<close>

record Layer0Reactive =
  min_length :: int
  max_length :: int
  blocklist :: "string list"
  allowlist :: "string list"
  rate_limits :: "pyval \<rightharpoonup> rate_entry"
  validation_count :: nat

definition Layer0Reactive_init ::
  "int \<Rightarrow> int \<Rightarrow> string list \<Rightarrow> string list \<Rightarrow> Layer0Reactive" where
  "Layer0Reactive_init min_len max_len blocked allowed =
     \<lparr>min_length = min_len, max_length = max_len, blocklist = blocked, allowlist = allowed,
      rate_limits = Map.empty, validation_count = 0\<rparr>"

definition Layer0Reactive_default :: Layer0Reactive where
  "Layer0Reactive_default = Layer0Reactive_init 5 1000 [] []"

definition passed :: ValidationResult where
  "passed = \<lparr>valid = True, v_reason = None, rejected = False\<rparr>"

definition failed :: "string \<Rightarrow> ValidationResult" where
  "failed why = \<lparr>valid = False, v_reason = Some why, rejected = True\<rparr>"

definition check_rate_limit ::
  "real \<Rightarrow> Layer0Reactive \<Rightarrow> pyval \<Rightarrow> int \<Rightarrow> real
     \<Rightarrow> (exn + ValidationResult) \<times> Layer0Reactive" where
  "check_rate_limit now l0 user_id max_requests window_seconds =
     (if \<not> hashable user_id then (Inl TypeError, l0)
      else
        case rate_limits l0 user_id of
          None \<Rightarrow>
            (Inr passed,
             l0\<lparr>rate_limits := (rate_limits l0)(user_id \<mapsto> \<lparr>count = 1, window_start = now\<rparr>)\<rparr>)
        | Some user_limits \<Rightarrow>
            (let elapsed = now - window_start user_limits in
             if elapsed > window_seconds then
               (Inr passed,
                l0\<lparr>rate_limits :=
                     (rate_limits l0)(user_id \<mapsto> \<lparr>count = 1, window_start = now\<rparr>)\<rparr>)
             else if count user_limits \<ge> max_requests then
               (Inr (failed ''Rate limit exceeded''), l0)
             else
               (Inr passed,
                l0\<lparr>rate_limits :=
                     (rate_limits l0)(user_id \<mapsto> user_limits\<lparr>count := count user_limits + 1\<rparr>)\<rparr>)))"

text \<open>The loop over the blocklist: the first member that occurs in the content.\<close>

fun first_blocked :: "string list \<Rightarrow> string \<Rightarrow> string option" where
  "first_blocked [] content_lower = None"
| "first_blocked (blocked # rest) content_lower =
     (if str_in (lower blocked) content_lower then Some blocked
      else first_blocked rest content_lower)"

definition validate ::
  "real \<Rightarrow> Layer0Reactive \<Rightarrow> request \<Rightarrow> (exn + ValidationResult) \<times> Layer0Reactive" where
  "validate now l0 request =
     (let l0 = l0\<lparr>validation_count := validation_count l0 + 1\<rparr>;
          content = dict_get request ''content'' (PyStr []);
          user_id = dict_get request ''user_id'' (PyStr ''anonymous'')
      in case content of
           PyStr s \<Rightarrow>
             if int (length s) < min_length l0 then
               (Inr (failed (''Content too short (min '' @ str_of_int (min_length l0) @ '' chars)'')),
                l0)
             else if int (length s) > max_length l0 then
               (Inr (failed (''Content too long (max '' @ str_of_int (max_length l0) @ '' chars)'')),
                l0)
             else
               (case first_blocked (blocklist l0) (lower s) of
                  Some blocked \<Rightarrow> (Inr (failed (''Blocked term detected: '' @ blocked)), l0)
                | None \<Rightarrow>
                    (case check_rate_limit now l0 user_id 100 60 of
                       (Inl e, l0') \<Rightarrow> (Inl e, l0')
                     | (Inr rate_result, l0') \<Rightarrow>
                         if \<not> valid rate_result then (Inr rate_result, l0')
                         else (Inr passed, l0')))
         | _ \<Rightarrow> (Inr (failed ''Content must be a string''), l0))"

text \<open>
  The validation stage as the specification words it: four checks in a fixed order, the
  first that fails gives the verdict, and the rate limiter is a state machine per user.
\<close>

datatype check = TypeCheck | LengthCheck | BlocklistCheck | RateLimitCheck

definition content_of :: "request \<Rightarrow> pyval" where
  "content_of request = dict_get request ''content'' (PyStr [])"

definition user_of :: "request \<Rightarrow> pyval" where
  "user_of request = dict_get request ''user_id'' (PyStr ''anonymous'')"

definition text_of :: "request \<Rightarrow> string" where
  "text_of request = (case content_of request of PyStr s \<Rightarrow> s | _ \<Rightarrow> [])"

definition within_limit :: "real \<Rightarrow> (pyval \<rightharpoonup> rate_entry) \<Rightarrow> pyval \<Rightarrow> int \<Rightarrow> real \<Rightarrow> bool" where
  "within_limit now limits user max_requests window_seconds =
     (case limits user of
        None \<Rightarrow> True
      | Some e \<Rightarrow> now - window_start e > window_seconds \<or> count e < max_requests)"

definition limiter_step ::
  "real \<Rightarrow> (pyval \<rightharpoonup> rate_entry) \<Rightarrow> pyval \<Rightarrow> real \<Rightarrow> (pyval \<rightharpoonup> rate_entry)" where
  "limiter_step now limits user window_seconds =
     (case limits user of
        None \<Rightarrow> limits(user \<mapsto> \<lparr>count = 1, window_start = now\<rparr>)
      | Some e \<Rightarrow>
          if now - window_start e > window_seconds
          then limits(user \<mapsto> \<lparr>count = 1, window_start = now\<rparr>)
          else limits(user \<mapsto> e\<lparr>count := count e + 1\<rparr>))"

fun check_passes :: "real \<Rightarrow> Layer0Reactive \<Rightarrow> request \<Rightarrow> check \<Rightarrow> bool" where
  "check_passes now l0 request TypeCheck = (case content_of request of PyStr s \<Rightarrow> True | _ \<Rightarrow> False)"
| "check_passes now l0 request LengthCheck =
     (min_length l0 \<le> int (length (text_of request))
      \<and> int (length (text_of request)) \<le> max_length l0)"
| "check_passes now l0 request BlocklistCheck =
     (\<not> list_ex (\<lambda>b. str_in (lower b) (lower (text_of request))) (blocklist l0))"
| "check_passes now l0 request RateLimitCheck =
     within_limit now (rate_limits l0) (user_of request) 100 60"

fun failure_reason :: "Layer0Reactive \<Rightarrow> request \<Rightarrow> check \<Rightarrow> string" where
  "failure_reason l0 request TypeCheck = ''Content must be a string''"
| "failure_reason l0 request LengthCheck =
     (if int (length (text_of request)) < min_length l0
      then ''Content too short (min '' @ str_of_int (min_length l0) @ '' chars)''
      else ''Content too long (max '' @ str_of_int (max_length l0) @ '' chars)'')"
| "failure_reason l0 request BlocklistCheck =
     (case find (\<lambda>b. str_in (lower b) (lower (text_of request))) (blocklist l0) of
        Some b \<Rightarrow> ''Blocked term detected: '' @ b
      | None \<Rightarrow> [])"
| "failure_reason l0 request RateLimitCheck = ''Rate limit exceeded''"

definition first_failure :: "real \<Rightarrow> Layer0Reactive \<Rightarrow> request \<Rightarrow> check option" where
  "first_failure now l0 request =
     find (\<lambda>c. \<not> check_passes now l0 request c)
       [TypeCheck, LengthCheck, BlocklistCheck, RateLimitCheck]"

subsection \<open>Layer 2: the deliberative stage\<close>

record DeliberativeResult =
  r_category :: string
  r_confidence :: real
  r_cost :: real
  reasoning :: "string option"
  model :: "string option"

text \<open>\<open>model_client\<close> is an opaque handle: the class only tests it against \<^verbatim>\<open>None\<close>.\<close>

record Layer2Deliberative =
  model_client :: "nat option"
  cost_per_call :: real
  model_name :: string
  call_count :: nat
  l2_total_cost :: real

definition Layer2Deliberative_init :: "nat option \<Rightarrow> real \<Rightarrow> string \<Rightarrow> Layer2Deliberative" where
  "Layer2Deliberative_init client cpc mname =
     \<lparr>model_client = client, cost_per_call = cpc, model_name = mname,
      call_count = 0, l2_total_cost = 0\<rparr>"

definition Layer2Deliberative_default :: Layer2Deliberative where
  "Layer2Deliberative_default = Layer2Deliberative_init None 0.01 ''simulated''"

definition simulated_reason :: "Layer2Deliberative \<Rightarrow> string \<Rightarrow> DeliberativeResult" where
  "simulated_reason l2 content =
     (let text_lower = lower content in
      if str_in ''urgent'' text_lower \<or> str_in ''asap'' text_lower
           \<or> str_in ''emergency'' text_lower then
        \<lparr>r_category = ''urgent'', r_confidence = 0.92, r_cost = cost_per_call l2,
         reasoning = Some ''Contains urgency indicators'', model = Some (model_name l2)\<rparr>
      else if str_in ''invoice'' text_lower \<or> str_in ''billing'' text_lower
           \<or> str_in ''payment'' text_lower then
        \<lparr>r_category = ''billing'', r_confidence = 0.88, r_cost = cost_per_call l2,
         reasoning = Some ''Contains billing-related terms'', model = Some (model_name l2)\<rparr>
      else if str_in ''unsubscribe'' text_lower \<or> str_in ''viagra'' text_lower
           \<or> str_in ''lottery'' text_lower then
        \<lparr>r_category = ''spam'', r_confidence = 0.95, r_cost = cost_per_call l2,
         reasoning = Some ''Contains spam indicators'', model = Some (model_name l2)\<rparr>
      else
        \<lparr>r_category = ''other'', r_confidence = 0.75, r_cost = cost_per_call l2,
         reasoning = Some ''No specific category matched'', model = Some (model_name l2)\<rparr>)"

text \<open>The base class's \<^verbatim>\<open>_call_model\<close> is a placeholder that answers with the heuristic.\<close>

definition call_model :: "Layer2Deliberative \<Rightarrow> string \<Rightarrow> DeliberativeResult" where
  "call_model l2 content = simulated_reason l2 content"

definition reason :: "Layer2Deliberative \<Rightarrow> string \<Rightarrow> DeliberativeResult \<times> Layer2Deliberative" where
  "reason l2 content =
     (let l2 = l2\<lparr>call_count := call_count l2 + 1\<rparr>;
          l2 = l2\<lparr>l2_total_cost := l2_total_cost l2 + cost_per_call l2\<rparr>
      in if model_client l2 \<noteq> None then (call_model l2 content, l2)
         else (simulated_reason l2 content, l2))"

text \<open>
  The heuristic as the specification words it: an ordered table of keyword sets, each with
  its category and confidence; the first row with a keyword occurring in the lowercased
  content answers, and \<open>other\<close> with 0.75 answers when no row does.
\<close>

definition heuristic_table :: "(string list \<times> string \<times> real) list" where
  "heuristic_table =
     [([''urgent'', ''asap'', ''emergency''], ''urgent'', 0.92),
      ([''invoice'', ''billing'', ''payment''], ''billing'', 0.88),
      ([''unsubscribe'', ''viagra'', ''lottery''], ''spam'', 0.95)]"

fun classify_by_table :: "(string list \<times> string \<times> real) list \<Rightarrow> string \<Rightarrow> string \<times> real" where
  "classify_by_table [] txt = (''other'', 0.75)"
| "classify_by_table ((kws, cat, conf) # rows) txt =
     (if list_ex (\<lambda>k. str_in k txt) kws then (cat, conf) else classify_by_table rows txt)"

subsection \<open>Shared state\<close>

text \<open>
  The shared state is a mutable \<^verbatim>\<open>dict\<close> that several pattern layers may hold a reference
  to, so the model keeps the dictionaries in a store and the layers hold addresses. Of a
  shared dictionary the code reads one key, \<^verbatim>\<open>'learned_patterns'\<close> (absent: \<open>None\<close>),
  an insertion-ordered dictionary from category to the entry
  \<^verbatim>\<open>{'confidence', 'learned_by', 'learned_at'}\<close>; \<open>other_keys\<close> are the keys it never reads,
  which still make the dictionary non-empty.
\<close>

record pattern_info =
  si_confidence :: "real option"
  si_learned_by :: "string option"
  si_learned_at :: "real option"

record shared_dict =
  learned_patterns :: "(string \<times> pattern_info) list option"
  other_keys :: "string list"

type_synonym addr = nat

record store =
  objects :: "addr \<Rightarrow> shared_dict"
  next_addr :: addr

definition empty_dict :: shared_dict where
  "empty_dict = \<lparr>learned_patterns = None, other_keys = []\<rparr>"

text \<open>The truth value of a dictionary: it is not empty.\<close>

definition truthy :: "shared_dict \<Rightarrow> bool" where
  "truthy d = (learned_patterns d \<noteq> None \<or> other_keys d \<noteq> [])"

text \<open>The literal \<^verbatim>\<open>{}\<close> allocates a new dictionary.\<close>

definition new_dict :: "store \<Rightarrow> addr \<times> store" where
  "new_dict st =
     (next_addr st,
      st\<lparr>objects := (objects st)(next_addr st := empty_dict), next_addr := next_addr st + 1\<rparr>)"

text \<open>
  \<^verbatim>\<open>shared_state or {}\<close>: the argument when it is given and not empty, a new dictionary
  otherwise.
\<close>

definition or_new_dict :: "addr option \<Rightarrow> store \<Rightarrow> addr \<times> store" where
  "or_new_dict shared st =
     (case shared of
        None \<Rightarrow> new_dict st
      | Some a \<Rightarrow> if truthy (objects st a) then (a, st) else new_dict st)"

subsection \<open>Layer 1: the pattern stage\<close>

record Pattern =
  name :: string
  regex :: string
  p_category :: string
  p_confidence :: real
  learned_at :: "real option"
  learned_by :: "string option"
  match_count :: nat

record PatternMatchResult =
  matched :: bool
  pattern_name :: "string option"
  m_category :: "string option"
  m_confidence :: real
  m_method :: string

record Layer1Tactical =
  patterns :: "(string \<times> Pattern) list"
  confidence_threshold :: real
  shared_state :: addr
  cache :: "string \<rightharpoonup> PatternMatchResult"
  l1_match_count :: nat
  l1_cost :: real

definition Layer1Tactical_init ::
  "real \<Rightarrow> addr option \<Rightarrow> store \<Rightarrow> Layer1Tactical \<times> store" where
  "Layer1Tactical_init threshold shared st =
     (let (a, st) = or_new_dict shared st
      in (\<lparr>patterns = [], confidence_threshold = threshold, shared_state = a,
           cache = Map.empty, l1_match_count = 0, l1_cost = 0\<rparr>, st))"

definition add_pattern ::
  "real \<Rightarrow> Layer1Tactical \<Rightarrow> string \<Rightarrow> string \<Rightarrow> string \<Rightarrow> real \<Rightarrow> Layer1Tactical" where
  "add_pattern now l1 nm rx cat conf =
     l1\<lparr>patterns :=
          AList.update nm
            \<lparr>name = nm, regex = rx, p_category = cat, p_confidence = conf,
             learned_at = Some now, learned_by = None, match_count = 0\<rparr>
            (patterns l1)\<rparr>"

text \<open>
  Strategy 1 of \<open>match\<close>, the loop over the local patterns in registration order. It ends
  at the first pattern that the engine finds in the content and whose confidence reaches
  the threshold; \<^verbatim>\<open>except re.error: continue\<close> goes on to the next pattern, and any other
  exception of the engine leaves the loop.
\<close>

fun scan_patterns ::
  "(string \<Rightarrow> string \<Rightarrow> search_outcome) \<Rightarrow> real \<Rightarrow> string \<Rightarrow> (string \<times> Pattern) list
     \<Rightarrow> exn + (string \<times> Pattern) option" where
  "scan_patterns search threshold content_lower [] = Inr None"
| "scan_patterns search threshold content_lower ((pname, pat) # rest) =
     (case search (regex pat) content_lower of
        Found \<Rightarrow>
          if p_confidence pat \<ge> threshold then Inr (Some (pname, pat))
          else scan_patterns search threshold content_lower rest
      | NotFound \<Rightarrow> scan_patterns search threshold content_lower rest
      | ReError \<Rightarrow> scan_patterns search threshold content_lower rest
      | OtherError \<Rightarrow> Inl EngineError)"

text \<open>
  Strategy 2, the loop over the shared patterns: the first category that occurs in the
  content and whose confidence (0 when the entry has none) reaches the threshold.
\<close>

fun scan_shared :: "real \<Rightarrow> string \<Rightarrow> (string \<times> pattern_info) list \<Rightarrow> (string \<times> real) option" where
  "scan_shared threshold content_lower [] = None"
| "scan_shared threshold content_lower ((category, info) # rest) =
     (if str_in (lower category) content_lower then
        (let confidence = (case si_confidence info of None \<Rightarrow> 0 | Some c \<Rightarrow> c) in
         if confidence \<ge> threshold then Some (category, confidence)
         else scan_shared threshold content_lower rest)
      else scan_shared threshold content_lower rest)"

definition no_match :: PatternMatchResult where
  "no_match = \<lparr>matched = False, pattern_name = None, m_category = None, m_confidence = 0,
               m_method = ''pattern''\<rparr>"

definition match ::
  "env \<Rightarrow> store \<Rightarrow> Layer1Tactical \<Rightarrow> string
     \<Rightarrow> (exn + PatternMatchResult option) \<times> Layer1Tactical" where
  "match ev st l1 content =
     (let l1 = l1\<lparr>l1_match_count := l1_match_count l1 + 1\<rparr>;
          content_lower = lower content
      in case str_encode ev content_lower of
           None \<Rightarrow> (Inl UnicodeEncodeError, l1)
         | Some encoded \<Rightarrow>
     (let cache_key = sha256_hex ev encoded
      in case cache l1 cache_key of
           Some cached \<Rightarrow> (Inr (if matched cached then Some cached else None), l1)
         | None \<Rightarrow>
             (case scan_patterns (re_search ev) (confidence_threshold l1) content_lower
                     (patterns l1) of
                Inl e \<Rightarrow> (Inl e, l1)
              | Inr (Some (pname, pat)) \<Rightarrow>
                  (let result =
                         \<lparr>matched = True, pattern_name = Some pname,
                          m_category = Some (p_category pat),
                          m_confidence = p_confidence pat, m_method = ''pattern_cached''\<rparr>
                   in (Inr (Some result),
                       l1\<lparr>patterns :=
                            AList.update pname
                              (pat\<lparr>match_count := match_count pat + 1\<rparr>) (patterns l1),
                          l1_cost := l1_cost l1 + 0.0001,
                          cache := (cache l1)(cache_key \<mapsto> result)\<rparr>))
              | Inr None \<Rightarrow>
                  (case (case learned_patterns (objects st (shared_state l1)) of
                           None \<Rightarrow> None
                         | Some shared \<Rightarrow>
                             scan_shared (confidence_threshold l1) content_lower shared) of
                     Some (category, confidence) \<Rightarrow>
                       (let result =
                              \<lparr>matched = True, pattern_name = Some category,
                               m_category = Some category, m_confidence = confidence,
                               m_method = ''pattern_shared''\<rparr>
                        in (Inr (Some result),
                            l1\<lparr>l1_cost := l1_cost l1 + 0.0001,
                               cache := (cache l1)(cache_key \<mapsto> result)\<rparr>))
                   | None \<Rightarrow> (Inr None, l1\<lparr>cache := (cache l1)(cache_key \<mapsto> no_match)\<rparr>)))))"

definition learn_pattern ::
  "real \<Rightarrow> store \<Rightarrow> Layer1Tactical \<Rightarrow> string \<Rightarrow> string \<Rightarrow> real \<Rightarrow> string option
     \<Rightarrow> string option \<times> Layer1Tactical \<times> store" where
  "learn_pattern now st l1 content category confidence by_agent =
     (if confidence < 0.90 then (None, l1, st)
      else
        case split_ws (lower content) of
          [] \<Rightarrow> (None, l1, st)
        | key_word # more_words \<Rightarrow>
            (let pname = ''learned_'' @ key_word @ ''_'' @ category;
                 l1 = l1\<lparr>patterns :=
                          AList.update pname
                            \<lparr>name = pname, regex = key_word, p_category = category,
                             p_confidence = confidence, learned_at = Some now,
                             learned_by = by_agent, match_count = 0\<rparr>
                            (patterns l1)\<rparr>;
                 d = objects st (shared_state l1);
                 shared = (case learned_patterns d of None \<Rightarrow> [] | Some ps \<Rightarrow> ps);
                 d = d\<lparr>learned_patterns :=
                        Some (AList.update category
                                \<lparr>si_confidence = Some confidence, si_learned_by = by_agent,
                                 si_learned_at = Some now\<rparr>
                                shared)\<rparr>
             in (Some pname, l1, st\<lparr>objects := (objects st)(shared_state l1 := d)\<rparr>)))"

text \<open>The patterns published in the shared dictionary at an address (none when the key is absent).\<close>

definition shared_patterns :: "store \<Rightarrow> addr \<Rightarrow> (string \<times> pattern_info) list" where
  "shared_patterns st a = (case learned_patterns (objects st a) of None \<Rightarrow> [] | Some ps \<Rightarrow> ps)"

text \<open>A registered pattern is well formed for a text when the engine does not raise \<^verbatim>\<open>re.error\<close> on it.\<close>

definition well_formed ::
  "(string \<Rightarrow> string \<Rightarrow> search_outcome) \<Rightarrow> string \<Rightarrow> string \<times> Pattern \<Rightarrow> bool" where
  "well_formed search txt entry = (search (regex (snd entry)) txt \<noteq> ReError)"

text \<open>
  A pattern qualifies for a content when the engine finds its regex there and its
  confidence reaches the threshold; the scan passes over an entry that does not qualify
  and on which the engine raises nothing but \<^verbatim>\<open>re.error\<close>.
\<close>

definition qualifies :: "env \<Rightarrow> real \<Rightarrow> string \<Rightarrow> Pattern \<Rightarrow> bool" where
  "qualifies ev threshold content_lower p =
     (re_search ev (regex p) content_lower = Found \<and> p_confidence p \<ge> threshold)"

definition passed_over :: "env \<Rightarrow> real \<Rightarrow> string \<Rightarrow> string \<times> Pattern \<Rightarrow> bool" where
  "passed_over ev threshold content_lower entry =
     (re_search ev (regex (snd entry)) content_lower \<noteq> OtherError
      \<and> \<not> qualifies ev threshold content_lower (snd entry))"

text \<open>
  The confidence that the scan of the shared patterns reads from an entry, and the test it
  applies to an entry: the category occurs in the content and the confidence reaches
  the threshold.
\<close>

definition info_confidence :: "pattern_info \<Rightarrow> real" where
  "info_confidence info = (case si_confidence info of None \<Rightarrow> 0 | Some c \<Rightarrow> c)"

definition shared_qualifies :: "real \<Rightarrow> string \<Rightarrow> string \<times> pattern_info \<Rightarrow> bool" where
  "shared_qualifies threshold content_lower entry =
     (str_in (lower (fst entry)) content_lower \<and> info_confidence (snd entry) \<ge> threshold)"

subsection \<open>The cost tracker\<close>

record Decision =
  category :: string
  d_method :: string
  confidence :: real
  cost :: real
  layer :: int
  suppressed :: bool

text \<open>
  The floats of the tracker. A cost given to \<open>record\<close> and the baseline cost per request
  are any \<^verbatim>\<open>float\<close>, so an infinity or a NaN can come in, and a sum, a product or a
  quotient of finite floats can overflow to an infinity. \<open>Fin x\<close> is a finite float,
  \<open>PInf\<close> and \<open>NInf\<close> are \<^verbatim>\<open>float('inf')\<close> and \<^verbatim>\<open>float('-inf')\<close>, \<open>NaN\<close> is
  \<^verbatim>\<open>float('nan')\<close>. A result whose magnitude reaches \<open>float_bound\<close>, the least real
  that rounds to an infinity, is the infinity of its sign (\<open>fl\<close>); below it the result
  is kept as the real number: its rounding to the nearest double, underflow included,
  is left out, and the two zeros are one. On infinities and NaN the operations follow
  IEEE 754, as Python does; \<^verbatim>\<open>x / y\<close> raises \<^verbatim>\<open>ZeroDivisionError\<close> when \<open>y\<close> is zero,
  which is the value \<open>None\<close>.
\<close>

datatype pyfloat = Fin real | PInf | NInf | NaN

definition float_bound :: real where
  "float_bound = 2 ^ 1024 - 2 ^ 970"

definition fl :: "real \<Rightarrow> pyfloat" where
  "fl x = (if x \<ge> float_bound then PInf else if x \<le> - float_bound then NInf else Fin x)"

text \<open>\<^verbatim>\<open>x > 0\<close>.\<close>

fun is_pos :: "pyfloat \<Rightarrow> bool" where
  "is_pos (Fin x) = (x > 0)"
| "is_pos PInf = True"
| "is_pos NInf = False"
| "is_pos NaN = False"

definition inf_of :: "bool \<Rightarrow> pyfloat" where
  "inf_of positive = (if positive then PInf else NInf)"

fun fneg :: "pyfloat \<Rightarrow> pyfloat" where
  "fneg (Fin x) = Fin (- x)"
| "fneg PInf = NInf"
| "fneg NInf = PInf"
| "fneg NaN = NaN"

text \<open>\<^verbatim>\<open>x + y\<close>, \<^verbatim>\<open>x - y\<close> and \<^verbatim>\<open>x * y\<close>.\<close>

definition fadd :: "pyfloat \<Rightarrow> pyfloat \<Rightarrow> pyfloat" where
  "fadd x y =
     (if x = NaN \<or> y = NaN then NaN
      else case (x, y) of
             (Fin a, Fin b) \<Rightarrow> fl (a + b)
           | (Fin a, _) \<Rightarrow> y
           | (_, Fin b) \<Rightarrow> x
           | _ \<Rightarrow> if x = y then x else NaN)"

definition fsub :: "pyfloat \<Rightarrow> pyfloat \<Rightarrow> pyfloat" where
  "fsub x y = fadd x (fneg y)"

definition fmul :: "pyfloat \<Rightarrow> pyfloat \<Rightarrow> pyfloat" where
  "fmul x y =
     (if x = NaN \<or> y = NaN then NaN
      else case (x, y) of
             (Fin a, Fin b) \<Rightarrow> fl (a * b)
           | _ \<Rightarrow> if x = Fin 0 \<or> y = Fin 0 then NaN else inf_of (is_pos x = is_pos y))"

text \<open>\<^verbatim>\<open>x / y\<close>; \<open>None\<close> is \<^verbatim>\<open>ZeroDivisionError\<close>.\<close>

definition truediv :: "pyfloat \<Rightarrow> pyfloat \<Rightarrow> pyfloat option" where
  "truediv x y =
     (if y = Fin 0 then None
      else Some (if x = NaN \<or> y = NaN then NaN
                 else case (x, y) of
                        (Fin a, Fin b) \<Rightarrow> fl (a / b)
                      | (Fin a, _) \<Rightarrow> Fin 0
                      | (_, Fin b) \<Rightarrow> inf_of (is_pos x = (b > 0))
                      | _ \<Rightarrow> NaN))"

text \<open>\<^verbatim>\<open>sum(values)\<close>: from the integer 0, left to right.\<close>

definition fsum :: "pyfloat list \<Rightarrow> pyfloat" where
  "fsum xs = foldl fadd (Fin 0) xs"

record CostRecord =
  cr_layer :: int
  cr_cost :: pyfloat
  cr_category :: string
  cr_method :: string
  cr_timestamp :: real
  cr_confidence :: real

text \<open>The argument of \<open>record\<close>: a dictionary in which each of the five keys may be absent.\<close>

record result_dict =
  rd_layer :: "int option"
  rd_cost :: "pyfloat option"
  rd_category :: "string option"
  rd_method :: "string option"
  rd_confidence :: "real option"

text \<open>
  \<open>layer_costs\<close> and \<open>layer_counts\<close> start with the keys 0, 1 and 2; \<open>record\<close> adds a key
  for any other layer it is given.
\<close>

record CostTracker =
  records :: "CostRecord list"
  layer_costs :: "(int \<times> pyfloat) list"
  layer_counts :: "(int \<times> nat) list"
  suppressions :: nat
  baseline_cost_per_request :: pyfloat

definition CostTracker_init :: CostTracker where
  "CostTracker_init =
     \<lparr>records = [], layer_costs = [(0, Fin 0), (1, Fin 0), (2, Fin 0)],
      layer_counts = [(0, 0), (1, 0), (2, 0)], suppressions = 0,
      baseline_cost_per_request = Fin 0.01\<rparr>"

definition or_else :: "'a option \<Rightarrow> 'a \<Rightarrow> 'a" where
  "or_else v dflt = (case v of None \<Rightarrow> dflt | Some x \<Rightarrow> x)"

definition record_cost :: "real \<Rightarrow> CostTracker \<Rightarrow> result_dict \<Rightarrow> CostTracker" where
  "record_cost now t result =
     (let lay = or_else (rd_layer result) 2;
          cst = or_else (rd_cost result) (Fin 0);
          cat = or_else (rd_category result) ''unknown'';
          meth = or_else (rd_method result) ''unknown'';
          conf = or_else (rd_confidence result) 0;
          rec = \<lparr>cr_layer = lay, cr_cost = cst, cr_category = cat, cr_method = meth,
                 cr_timestamp = now, cr_confidence = conf\<rparr>;
          t = t\<lparr>records := records t @ [rec]\<rparr>;
          t = t\<lparr>layer_costs :=
                 AList.update lay (fadd (or_else (map_of (layer_costs t) lay) (Fin 0)) cst)
                   (layer_costs t)\<rparr>;
          t = t\<lparr>layer_counts :=
                 AList.update lay (or_else (map_of (layer_counts t) lay) 0 + 1) (layer_counts t)\<rparr>
      in if lay < 2 then t\<lparr>suppressions := suppressions t + 1\<rparr> else t)"

definition record_result :: "real \<Rightarrow> CostTracker \<Rightarrow> Decision \<Rightarrow> CostTracker" where
  "record_result now t result =
     record_cost now t
       \<lparr>rd_layer = Some (layer result), rd_cost = Some (Fin (cost result)),
        rd_category = Some (category result), rd_method = Some (d_method result),
        rd_confidence = Some (confidence result)\<rparr>"

definition total_requests :: "CostTracker \<Rightarrow> nat" where
  "total_requests t = sum_list (map snd (layer_counts t))"

definition total_cost :: "CostTracker \<Rightarrow> pyfloat" where
  "total_cost t = fsum (map snd (layer_costs t))"

text \<open>The count is converted to a float and multiplied.\<close>

definition baseline_cost :: "CostTracker \<Rightarrow> pyfloat" where
  "baseline_cost t = fmul (Fin (real (total_requests t))) (baseline_cost_per_request t)"

definition cost_savings :: "CostTracker \<Rightarrow> pyfloat" where
  "cost_savings t = fsub (baseline_cost t) (total_cost t)"

definition suppression_rate :: "CostTracker \<Rightarrow> real" where
  "suppression_rate t =
     (if total_requests t = 0 then 0 else real (suppressions t) / real (total_requests t))"

definition cost_reduction_factor :: "CostTracker \<Rightarrow> pyfloat option" where
  "cost_reduction_factor t =
     (if total_cost t = Fin 0
      then Some (if is_pos (baseline_cost t) then PInf else Fin 1)
      else truediv (baseline_cost t) (total_cost t))"

definition set_baseline_cost :: "CostTracker \<Rightarrow> pyfloat \<Rightarrow> CostTracker" where
  "set_baseline_cost t c = t\<lparr>baseline_cost_per_request := c\<rparr>"

definition reset_tracker :: "CostTracker \<Rightarrow> CostTracker" where
  "reset_tracker t =
     t\<lparr>records := [], layer_costs := [(0, Fin 0), (1, Fin 0), (2, Fin 0)],
       layer_counts := [(0, 0), (1, 0), (2, 0)], suppressions := 0\<rparr>"

text \<open>The states of a tracker: a new one, and what the methods that write make of a state.\<close>

inductive reachable :: "CostTracker \<Rightarrow> bool" where
  init: "reachable CostTracker_init"
| rec: "reachable t \<Longrightarrow> reachable (record_cost now t result)"
| baseline: "reachable t \<Longrightarrow> reachable (set_baseline_cost t c)"
| reset: "reachable t \<Longrightarrow> reachable (reset_tracker t)"

subsection \<open>The orchestrator\<close>

record SPLAgent =
  agent_id :: string
  a_shared_state :: addr
  a_confidence_threshold :: real
  layer0 :: Layer0Reactive
  layer1 :: Layer1Tactical
  layer2 :: Layer2Deliberative
  cost_tracker :: CostTracker
  suppression_count :: nat

text \<open>
  The constructor evaluates \<^verbatim>\<open>shared_state or {}\<close> twice: once for the agent's own
  attribute, once more inside the constructor of the pattern layer. The deliberative
  layer of an agent is the class of this package; \<^verbatim>\<open>set_layer2\<close>, which can put any
  object in its place, is outside the model.
\<close>

definition SPLAgent_init :: "string \<Rightarrow> addr option \<Rightarrow> real \<Rightarrow> store \<Rightarrow> SPLAgent \<times> store" where
  "SPLAgent_init ident shared threshold st =
     (let (a, st) = or_new_dict shared st;
          (l1, st) = Layer1Tactical_init threshold (Some a) st
      in (\<lparr>agent_id = ident, a_shared_state = a, a_confidence_threshold = threshold,
           layer0 = Layer0Reactive_default, layer1 = l1, layer2 = Layer2Deliberative_default,
           cost_tracker = CostTracker_init, suppression_count = 0\<rparr>, st))"

definition rejected_decision :: Decision where
  "rejected_decision =
     \<lparr>category = ''REJECTED'', d_method = ''validation'', confidence = 1, cost = 0, layer = 0,
      suppressed = True\<rparr>"

text \<open>The decision of the handler; \<open>suppressed\<close> is the default of the dataclass.\<close>

definition error_decision :: Decision where
  "error_decision =
     \<lparr>category = ''ERROR'', d_method = ''error_handler'', confidence = 0, cost = 0, layer = 0,
      suppressed = False\<rparr>"

text \<open>\<^verbatim>\<open>match_result.category or 'unknown'\<close>.\<close>

definition category_or_unknown :: "string option \<Rightarrow> string" where
  "category_or_unknown c = (case c of None \<Rightarrow> ''unknown'' | Some s \<Rightarrow> if s = [] then ''unknown'' else s)"

text \<open>
  The body of the \<^verbatim>\<open>try\<close> block of \<open>process\<close>: the decision it returns or the exception
  that leaves it, with the agent and the store as they are at that moment.
\<close>

definition process_try ::
  "env \<Rightarrow> real \<Rightarrow> store \<Rightarrow> SPLAgent \<Rightarrow> request \<Rightarrow> (exn + Decision) \<times> SPLAgent \<times> store" where
  "process_try ev now st a request =
     (let content = dict_get request ''content'' (PyStr []) in
      case validate now (layer0 a) request of
        (Inl e, l0) \<Rightarrow> (Inl e, a\<lparr>layer0 := l0\<rparr>, st)
      | (Inr validation, l0) \<Rightarrow>
          (let a = a\<lparr>layer0 := l0\<rparr> in
           if \<not> valid validation then
             (Inr rejected_decision,
              a\<lparr>cost_tracker := record_result now (cost_tracker a) rejected_decision\<rparr>, st)
           else
             case content of
               PyStr s \<Rightarrow>
                 (case match ev st (layer1 a) s of
                    (Inl e, l1) \<Rightarrow> (Inl e, a\<lparr>layer1 := l1\<rparr>, st)
                  | (Inr match_result, l1) \<Rightarrow>
                      (let a = a\<lparr>layer1 := l1\<rparr> in
                       case (case match_result of
                               None \<Rightarrow> None
                             | Some m \<Rightarrow> if matched m then Some m else None) of
                         Some m \<Rightarrow>
                           (let a = a\<lparr>suppression_count := suppression_count a + 1\<rparr>;
                                decision =
                                  \<lparr>category = category_or_unknown (m_category m),
                                   d_method = m_method m, confidence = m_confidence m, cost = 0,
                                   layer = 1, suppressed = True\<rparr>
                            in (Inr decision,
                                a\<lparr>cost_tracker := record_result now (cost_tracker a) decision\<rparr>,
                                st))
                       | None \<Rightarrow>
                           (let (fm_result, l2) = reason (layer2 a) s;
                                a = a\<lparr>layer2 := l2\<rparr>;
                                (l1, st) =
                                  (if r_confidence fm_result \<ge> 0.90 then
                                     snd (learn_pattern now st (layer1 a) s (r_category fm_result)
                                            (r_confidence fm_result) (Some (agent_id a)))
                                   else (layer1 a, st));
                                a = a\<lparr>layer1 := l1\<rparr>;
                                decision =
                                  \<lparr>category = r_category fm_result, d_method = ''llm'',
                                   confidence = r_confidence fm_result, cost = r_cost fm_result,
                                   layer = 2, suppressed = False\<rparr>
                            in (Inr decision,
                                a\<lparr>cost_tracker := record_result now (cost_tracker a) decision\<rparr>,
                                st))))
             | _ \<Rightarrow> (Inl AttributeError, a, st)))"

definition process ::
  "env \<Rightarrow> real \<Rightarrow> store \<Rightarrow> SPLAgent \<Rightarrow> request \<Rightarrow> Decision \<times> SPLAgent \<times> store" where
  "process ev now st a request =
     (case process_try ev now st a request of
        (Inr decision, a, st) \<Rightarrow> (decision, a, st)
      | (Inl e, a, st) \<Rightarrow>
          (error_decision,
           a\<lparr>cost_tracker := record_result now (cost_tracker a) error_decision\<rparr>, st))"

text \<open>
  The two decisions \<open>process\<close> builds from a result, and the learning step after a
  deliberation, named so that the lemmas about \<open>process\<close> can state them.
\<close>

definition match_decision :: "PatternMatchResult \<Rightarrow> Decision" where
  "match_decision m =
     \<lparr>category = category_or_unknown (m_category m), d_method = m_method m,
      confidence = m_confidence m, cost = 0, layer = 1, suppressed = True\<rparr>"

definition llm_decision :: "DeliberativeResult \<Rightarrow> Decision" where
  "llm_decision fm =
     \<lparr>category = r_category fm, d_method = ''llm'', confidence = r_confidence fm,
      cost = r_cost fm, layer = 2, suppressed = False\<rparr>"

definition learn_if_confident ::
  "real \<Rightarrow> store \<Rightarrow> Layer1Tactical \<Rightarrow> string \<Rightarrow> DeliberativeResult \<Rightarrow> string
     \<Rightarrow> Layer1Tactical \<times> store" where
  "learn_if_confident now st l1 s fm who =
     (if r_confidence fm \<ge> 0.90
      then snd (learn_pattern now st l1 s (r_category fm) (r_confidence fm) (Some who))
      else (l1, st))"

text \<open>
  The entries of \<open>report\<close> that are numbers or names (the per-layer breakdown and the
  reports of the layers are left out).
\<close>

record agent_report =
  rep_agent_id :: string
  rep_total_cost :: pyfloat
  rep_cost_savings :: pyfloat
  rep_cost_reduction_factor :: "pyfloat option"
  rep_suppression_rate :: real
  rep_suppressions :: nat
  rep_patterns_learned :: nat

definition report :: "SPLAgent \<Rightarrow> agent_report" where
  "report a =
     \<lparr>rep_agent_id = agent_id a,
      rep_total_cost = total_cost (cost_tracker a),
      rep_cost_savings = cost_savings (cost_tracker a),
      rep_cost_reduction_factor = cost_reduction_factor (cost_tracker a),
      rep_suppression_rate = suppression_rate (cost_tracker a),
      rep_suppressions = suppression_count a,
      rep_patterns_learned = length (patterns (layer1 a))\<rparr>"

text \<open>The record that the tracker appends for a decision.\<close>

definition cost_record_of :: "real \<Rightarrow> Decision \<Rightarrow> CostRecord" where
  "cost_record_of now d =
     \<lparr>cr_layer = layer d, cr_cost = Fin (cost d), cr_category = category d,
      cr_method = d_method d,
      cr_timestamp = now, cr_confidence = confidence d\<rparr>"

definition count_below_2 :: "CostTracker \<Rightarrow> nat" where
  "count_below_2 t = length (filter (\<lambda>r. cr_layer r < 2) (records t))"

definition count_layer_1 :: "CostTracker \<Rightarrow> nat" where
  "count_layer_1 t = length (filter (\<lambda>r. cr_layer r = 1) (records t))"

definition reset_agent :: "SPLAgent \<Rightarrow> SPLAgent" where
  "reset_agent a =
     a\<lparr>cost_tracker := reset_tracker (cost_tracker a), suppression_count := 0,
       layer1 := (layer1 a)\<lparr>cache := Map.empty\<rparr>,
       layer0 := (layer0 a)\<lparr>rate_limits := Map.empty\<rparr>\<rparr>"

text \<open>
  The agents a caller can reach: a new one, one that has processed a request, one whose
  layers were configured (patterns, blocklist, cost per call, ...), one that was reset.
\<close>

inductive reachable_agent :: "SPLAgent \<Rightarrow> bool" where
  created: "reachable_agent (fst (SPLAgent_init ident shared threshold st))"
| processed: "reachable_agent a \<Longrightarrow> reachable_agent (fst (snd (process ev now st a request)))"
| configured:
    "reachable_agent a \<Longrightarrow> reachable_agent (a\<lparr>layer0 := l0, layer1 := l1, layer2 := l2\<rparr>)"
| was_reset: "reachable_agent a \<Longrightarrow> reachable_agent (reset_agent a)"

subsection \<open>Example states\<close>

text \<open>Concrete requests and states on which the theorems below are instantiated.\<close>

definition short_request :: request where
  "short_request = [''content'' \<mapsto> PyStr ''Hi'', ''user_id'' \<mapsto> PyStr ''user123'']"

definition plain_request :: request where
  "plain_request = [''content'' \<mapsto> PyStr ''Hello world'', ''user_id'' \<mapsto> PyStr ''user123'']"

definition demo_tracker :: CostTracker where
  "demo_tracker =
     record_cost 0 CostTracker_init
       \<lparr>rd_layer = Some 1, rd_cost = Some (Fin 0), rd_category = Some ''urgent'',
        rd_method = Some ''pattern_cached'', rd_confidence = Some 0.95\<rparr>"

text \<open>
  A tracker that has recorded one decision of layer 2 whose cost is the least positive
  double, \<^verbatim>\<open>5e-324\<close>.
\<close>

definition tiny_tracker :: CostTracker where
  "tiny_tracker =
     record_cost 0 CostTracker_init
       \<lparr>rd_layer = Some 2, rd_cost = Some (Fin (1 / 2 ^ 1074)), rd_category = Some ''other'',
        rd_method = Some ''llm_reasoning'', rd_confidence = Some 0.8\<rparr>"

text \<open>
  An engine and a digest to run the pattern layer on examples. On a pattern of letters
  \<^verbatim>\<open>re.search\<close> with \<^verbatim>\<open>re.IGNORECASE\<close> finds a match exactly when the pattern occurs in the
  text, case ignored; \<^verbatim>\<open>[invalid\<close>, the malformed pattern of the test suite, raises
  \<^verbatim>\<open>re.error\<close>; \<^verbatim>\<open>a{99999999999}\<close> raises \<^verbatim>\<open>OverflowError\<close> (the repetition number is too
  large). Every string of the examples can be encoded, and the digest stands in for
  SHA-256 as an injective function.
\<close>

definition demo_search :: "string \<Rightarrow> string \<Rightarrow> search_outcome" where
  "demo_search rx txt =
     (if rx = ''[invalid'' then ReError
      else if rx = ''a{99999999999}'' then OtherError
      else if str_in (lower rx) (lower txt) then Found else NotFound)"

definition demo_env :: env where
  "demo_env = \<lparr>re_search = demo_search, str_encode = Some, sha256_hex = (\<lambda>s. s)\<rparr>"

definition store0 :: store where
  "store0 = \<lparr>objects = (\<lambda>a. empty_dict), next_addr = 0\<rparr>"

definition demo_layer1 :: Layer1Tactical where
  "demo_layer1 = fst (Layer1Tactical_init 0.85 None store0)"

definition demo_store :: store where
  "demo_store = snd (Layer1Tactical_init 0.85 None store0)"

definition invalid_then_urgent :: Layer1Tactical where
  "invalid_then_urgent =
     add_pattern 0 (add_pattern 0 demo_layer1 ''invalid'' ''[invalid'' ''category'' 0.95)
       ''urgent'' ''urgent'' ''urgent'' 0.95"

definition demo_agent :: SPLAgent where
  "demo_agent = fst (SPLAgent_init ''spl_agent'' None 0.85 store0)"

definition agent_store :: store where
  "agent_store = snd (SPLAgent_init ''spl_agent'' None 0.85 store0)"

definition list_user_request :: request where
  "list_user_request = [''content'' \<mapsto> PyStr ''Hello world'', ''user_id'' \<mapsto> PyList []]"

definition urgent_request :: request where
  "urgent_request = [''content'' \<mapsto> PyStr ''Urgent call'', ''user_id'' \<mapsto> PyStr ''user123'']"

definition none_request :: request where
  "none_request = [''user_id'' \<mapsto> PyStr ''user123'', ''content'' \<mapsto> PyNone]"

definition overflow_agent :: SPLAgent where
  "overflow_agent =
     demo_agent
       \<lparr>layer1 := add_pattern 0 (layer1 demo_agent) ''big'' ''a{99999999999}'' ''big'' 0.95\<rparr>"

definition big_then_urgent_agent :: SPLAgent where
  "big_then_urgent_agent =
     demo_agent
       \<lparr>layer1 :=
          add_pattern 0
            (add_pattern 0 (layer1 demo_agent) ''big'' ''a{99999999999}'' ''big'' 0.95)
            ''urgent'' ''urgent'' ''urgent'' 0.95\<rparr>"

definition urgent_only_agent :: SPLAgent where
  "urgent_only_agent =
     demo_agent
       \<lparr>layer1 := add_pattern 0 (layer1 demo_agent) ''urgent'' ''urgent'' ''urgent'' 0.95\<rparr>"

definition rejecting_agent :: SPLAgent where
  "rejecting_agent = fst (snd (process demo_env 0 agent_store demo_agent short_request))"

definition pattern_agent :: SPLAgent where
  "pattern_agent =
     demo_agent
       \<lparr>layer1 :=
          add_pattern 0
            (add_pattern 0 (layer1 demo_agent) ''invalid'' ''[invalid'' ''category'' 0.95)
            ''urgent'' ''urgent'' ''urgent'' 0.95\<rparr>"

definition invalid_pattern :: Pattern where
  "invalid_pattern =
     \<lparr>name = ''invalid'', regex = ''[invalid'', p_category = ''category'', p_confidence = 0.95,
      learned_at = Some 0, learned_by = None, match_count = 0\<rparr>"

definition urgent_pattern :: Pattern where
  "urgent_pattern =
     \<lparr>name = ''urgent'', regex = ''urgent'', p_category = ''urgent'', p_confidence = 0.95,
      learned_at = Some 0, learned_by = None, match_count = 0\<rparr>"

definition callback_request :: request where
  "callback_request =
     [''content'' \<mapsto> PyStr ''Please call back'', ''user_id'' \<mapsto> PyStr ''user123'']"

definition seen_agent :: SPLAgent where
  "seen_agent = fst (snd (process demo_env 0 agent_store demo_agent callback_request))"

definition callback_pattern :: Pattern where
  "callback_pattern =
     \<lparr>name = ''callback'', regex = ''call'', p_category = ''callback'', p_confidence = 0.95,
      learned_at = Some 1, learned_by = None, match_count = 0\<rparr>"

definition stale_agent :: SPLAgent where
  "stale_agent =
     seen_agent\<lparr>layer1 := add_pattern 1 (layer1 seen_agent) ''callback'' ''call'' ''callback'' 0.95\<rparr>"

definition other_result :: DeliberativeResult where
  "other_result =
     \<lparr>r_category = ''other'', r_confidence = 0.75, r_cost = 0.01,
      reasoning = Some ''No specific category matched'', model = Some ''simulated''\<rparr>"

definition billing_entry :: pattern_info where
  "billing_entry =
     \<lparr>si_confidence = Some 0.92, si_learned_by = Some ''agent_a'', si_learned_at = Some 0\<rparr>"

definition learned_store :: store where
  "learned_store =
     snd (snd (learn_pattern 0 demo_store demo_layer1 ''Billing question about invoice''
                 ''billing'' 0.92 (Some ''agent_a'')))"

definition learned_layer1 :: Layer1Tactical where
  "learned_layer1 =
     fst (snd (learn_pattern 0 demo_store demo_layer1 ''Billing question about invoice''
                 ''billing'' 0.92 (Some ''agent_a'')))"

definition agent_b :: SPLAgent where
  "agent_b = fst (SPLAgent_init ''agent_b'' (Some 0) 0.85 learned_store)"

definition strict_layer1 :: Layer1Tactical where
  "strict_layer1 = fst (Layer1Tactical_init 0.95 (Some 0) learned_store)"

definition billing_request :: request where
  "billing_request =
     [''content'' \<mapsto> PyStr ''Billing inquiry'', ''user_id'' \<mapsto> PyStr ''user9'']"

section \<open>Properties\<close>

subsection \<open>Layer 2\<close>

lemma simulated_reason_table:
  "(r_category (simulated_reason l2 content), r_confidence (simulated_reason l2 content))
     = classify_by_table heuristic_table (lower content)"
  by (simp add: simulated_reason_def heuristic_table_def Let_def)

lemma simulated_reason_cost: "r_cost (simulated_reason l2 content) = cost_per_call l2"
  by (simp add: simulated_reason_def Let_def)

text \<open>
  C6. Every call of \<open>reason\<close> adds one to the call counter and \<open>cost_per_call\<close> to the
  stage's total cost, with or without a model client, leaves \<open>cost_per_call\<close> as it was,
  and answers with the heuristic: category and confidence are those of the first row of
  the keyword table that has a keyword in the lowercased content (urgent 0.92, billing
  0.88, spam 0.95, in this order), \<open>other\<close> with 0.75 when there is none, and the cost of
  the result is \<open>cost_per_call\<close>, which is 0.01 by default.
\<close>

theorem reason_counts_and_classifies:
  "call_count (snd (reason l2 content)) = call_count l2 + 1
   \<and> l2_total_cost (snd (reason l2 content)) = l2_total_cost l2 + cost_per_call l2
   \<and> cost_per_call (snd (reason l2 content)) = cost_per_call l2
   \<and> (r_category (fst (reason l2 content)), r_confidence (fst (reason l2 content)))
        = classify_by_table heuristic_table (lower content)
   \<and> r_cost (fst (reason l2 content)) = cost_per_call l2
   \<and> cost_per_call Layer2Deliberative_default = 0.01"
  by (simp add: reason_def call_model_def Let_def simulated_reason_table simulated_reason_cost
      Layer2Deliberative_default_def Layer2Deliberative_init_def
      del: classify_by_table.simps)

subsection \<open>Layer 0\<close>

lemma first_blocked_find: "first_blocked bs c = find (\<lambda>b. str_in (lower b) c) bs"
  by (induction bs) auto

lemma find_None_list_ex: "(find P xs = None) = (\<not> list_ex P xs)"
  by (induction xs) auto

lemma check_rate_limit_spec:
  "hashable u \<Longrightarrow>
   check_rate_limit now l0 u m w =
     (if within_limit now (rate_limits l0) u m w
      then (Inr passed, l0\<lparr>rate_limits := limiter_step now (rate_limits l0) u w\<rparr>)
      else (Inr (failed ''Rate limit exceeded''), l0))"
  by (auto simp: check_rate_limit_def within_limit_def limiter_step_def Let_def
      split: option.splits)

lemma check_rate_limit_unhashable:
  "\<not> hashable u \<Longrightarrow> check_rate_limit now l0 u m w = (Inl TypeError, l0)"
  by (simp add: check_rate_limit_def)

lemma valid_passed: "valid passed" "\<not> valid (failed why)"
  by (simp_all add: passed_def failed_def)

lemma validate_hashable:
  "hashable (user_of request) \<Longrightarrow>
   validate now l0 request =
     (case first_failure now l0 request of
        None \<Rightarrow>
          (Inr passed,
           l0\<lparr>validation_count := validation_count l0 + 1,
              rate_limits := limiter_step now (rate_limits l0) (user_of request) 60\<rparr>)
      | Some c \<Rightarrow>
          (Inr (failed (failure_reason l0 request c)),
           l0\<lparr>validation_count := validation_count l0 + 1\<rparr>))"
  unfolding validate_def first_failure_def Let_def
  apply (fold content_of_def user_of_def)
  apply (cases "content_of request")
     apply (auto simp: text_of_def check_rate_limit_spec valid_passed first_blocked_find
      find_None_list_ex [symmetric] split: option.splits)
  done

lemma validate_unhashable:
  "\<not> hashable (user_of request) \<Longrightarrow>
   validate now l0 request =
     (case find (\<lambda>c. \<not> check_passes now l0 request c)
             [TypeCheck, LengthCheck, BlocklistCheck] of
        None \<Rightarrow> (Inl TypeError, l0\<lparr>validation_count := validation_count l0 + 1\<rparr>)
      | Some c \<Rightarrow>
          (Inr (failed (failure_reason l0 request c)),
           l0\<lparr>validation_count := validation_count l0 + 1\<rparr>))"
  unfolding validate_def Let_def
  apply (fold content_of_def user_of_def)
  apply (cases "content_of request")
     apply (auto simp: text_of_def check_rate_limit_unhashable valid_passed first_blocked_find
      find_None_list_ex [symmetric] split: option.splits)
  done

text \<open>
  C8. \<open>validate\<close> applies four checks in the order type, length, blocklist, rate limit,
  and the first that fails gives the verdict and its reason; later checks are not run, so
  a request rejected by one of the first three leaves the rate limits as they were. The
  verdict is \<open>valid\<close> exactly when all four pass. The rate limiter, for a key it can
  hash, passes and creates an entry with count 1 for a user it has no entry for, passes
  and resets the entry to count 1 once more than \<open>window_seconds\<close> have gone by since
  \<open>window_start\<close>, fails without a change when the count has reached \<open>max_requests\<close>
  within the window, and otherwise passes and adds one to the count; \<open>validate\<close> calls it
  with 100 and 60. A user id that cannot be hashed makes a request that passes the first
  three checks raise \<open>TypeError\<close> instead. The default bounds are 5 and 1000.
\<close>

theorem validate_first_failure_wins:
  "(hashable (user_of request) \<longrightarrow>
      validate now l0 request =
        (case first_failure now l0 request of
           None \<Rightarrow>
             (Inr passed,
              l0\<lparr>validation_count := validation_count l0 + 1,
                 rate_limits := limiter_step now (rate_limits l0) (user_of request) 60\<rparr>)
         | Some c \<Rightarrow>
             (Inr (failed (failure_reason l0 request c)),
              l0\<lparr>validation_count := validation_count l0 + 1\<rparr>)))
   \<and> (\<not> hashable (user_of request) \<longrightarrow>
      validate now l0 request =
        (case find (\<lambda>c. \<not> check_passes now l0 request c)
                [TypeCheck, LengthCheck, BlocklistCheck] of
           None \<Rightarrow> (Inl TypeError, l0\<lparr>validation_count := validation_count l0 + 1\<rparr>)
         | Some c \<Rightarrow>
             (Inr (failed (failure_reason l0 request c)),
              l0\<lparr>validation_count := validation_count l0 + 1\<rparr>)))
   \<and> (case fst (validate now l0 request) of Inr r \<Rightarrow> valid r | Inl e \<Rightarrow> False)
       = (hashable (user_of request)
          \<and> list_all (check_passes now l0 request)
                [TypeCheck, LengthCheck, BlocklistCheck, RateLimitCheck])
   \<and> (hashable u \<longrightarrow>
      check_rate_limit now l0 u max_requests window_seconds =
        (if within_limit now (rate_limits l0) u max_requests window_seconds
         then (Inr passed,
               l0\<lparr>rate_limits := limiter_step now (rate_limits l0) u window_seconds\<rparr>)
         else (Inr (failed ''Rate limit exceeded''), l0)))
   \<and> min_length Layer0Reactive_default = 5 \<and> max_length Layer0Reactive_default = 1000"
proof -
  have iff: "(case fst (validate now l0 request) of Inr r \<Rightarrow> valid r | Inl e \<Rightarrow> False)
       = (hashable (user_of request)
          \<and> list_all (check_passes now l0 request)
                [TypeCheck, LengthCheck, BlocklistCheck, RateLimitCheck])"
  proof (cases "hashable (user_of request)")
    case True
    then show ?thesis
      by (auto simp: validate_hashable first_failure_def valid_passed split: option.splits)
  next
    case False
    then show ?thesis
      by (auto simp: validate_unhashable valid_passed split: option.splits)
  qed
  show ?thesis
    using iff
    by (simp add: validate_hashable validate_unhashable check_rate_limit_spec
        Layer0Reactive_default_def Layer0Reactive_init_def
        del: check_passes.simps failure_reason.simps find.simps list.pred_inject)
qed

theorem validate_first_failure_wins_witness:
  "hashable (user_of short_request)
   \<and> validate 0 Layer0Reactive_default short_request
       = (Inr (failed ''Content too short (min 5 chars)''),
          Layer0Reactive_default\<lparr>validation_count := 1\<rparr>)
   \<and> hashable (user_of plain_request)
   \<and> validate 7 Layer0Reactive_default plain_request
       = (Inr passed,
          Layer0Reactive_default
            \<lparr>validation_count := 1,
             rate_limits := [PyStr ''user123'' \<mapsto> \<lparr>count = 1, window_start = 7\<rparr>]\<rparr>)"
  using validate_first_failure_wins [of short_request 0 Layer0Reactive_default]
    validate_first_failure_wins [of plain_request 7 Layer0Reactive_default]
  by (simp add: short_request_def plain_request_def user_of_def content_of_def text_of_def
      dict_get_def first_failure_def Layer0Reactive_default_def Layer0Reactive_init_def
      within_limit_def limiter_step_def str_of_int_def str_of_nat.simps [of 5])

subsection \<open>The cost tracker\<close>

lemma sum_update_add:
  "sum_list (map snd (AList.update k (or_else (map_of al k) 0 + c) al))
     = sum_list (map snd al) + (c::'a::comm_monoid_add)"
  by (induction al) (auto simp: or_else_def add_ac)

lemma sum_update_Suc:
  "sum_list (map snd (AList.update k (Suc (or_else (map_of al k) 0)) al))
     = Suc (sum_list (map snd al))"
  using sum_update_add [of k al "1::nat"] by simp

text \<open>
  In a reachable state the per-layer counts add up to the number of records, and the
  suppression counter is the number of records below layer 2.
\<close>

lemma reachable_counts_records:
  "reachable t \<Longrightarrow>
     total_requests t = length (records t)
     \<and> suppressions t = length (filter (\<lambda>r. cr_layer r < 2) (records t))"
proof (induction rule: reachable.induct)
  case init
  show ?case by (simp add: CostTracker_init_def total_requests_def)
next
  case (rec t now result)
  then show ?case
    by (simp add: record_cost_def Let_def total_requests_def sum_update_Suc)
next
  case (baseline t c)
  then show ?case by (simp add: set_baseline_cost_def total_requests_def)
next
  case (reset t)
  show ?case by (simp add: reset_tracker_def total_requests_def)
qed

lemma demo_tracker_reachable: "reachable demo_tracker"
  unfolding demo_tracker_def by (rule reachable.rec) (rule reachable.init)

lemma reachable_counts_records_witness:
  "reachable demo_tracker \<and> total_requests demo_tracker = length (records demo_tracker)
   \<and> suppressions demo_tracker
       = length (filter (\<lambda>r. cr_layer r < 2) (records demo_tracker))"
  using reachable_counts_records [OF demo_tracker_reachable] demo_tracker_reachable
  by blast

text \<open>The floats: the range, and when a quotient is the positive infinity.\<close>

lemma float_bound_pos: "float_bound > 0"
  by (simp add: float_bound_def)

lemma fl_eq_PInf: "fl x = PInf \<longleftrightarrow> x \<ge> float_bound"
  using float_bound_pos by (simp add: fl_def)

lemma fl_in_range: "\<bar>x\<bar> < float_bound \<Longrightarrow> fl x = Fin x"
  by (simp add: fl_def abs_less_iff)

lemma fl_zero: "fl 0 = Fin 0"
  using float_bound_pos by (simp add: fl_def)

lemma truediv_raises: "truediv x y = None \<longleftrightarrow> y = Fin 0"
  by (simp add: truediv_def)

lemma truediv_PInf:
  "truediv x y = Some PInf \<longleftrightarrow>
     (\<exists>a b. x = Fin a \<and> y = Fin b \<and> b \<noteq> 0 \<and> a / b \<ge> float_bound)
     \<or> (\<exists>b. x = PInf \<and> y = Fin b \<and> b > 0)
     \<or> (\<exists>b. x = NInf \<and> y = Fin b \<and> b < 0)"
  by (cases x; cases y) (auto simp: truediv_def fl_eq_PInf inf_of_def fl_def)

text \<open>
  C7, amended. In every reachable state of the tracker, \<open>total_requests\<close> is the sum of
  the per-layer counts and \<open>total_cost\<close> the float sum of the per-layer costs;
  \<open>baseline_cost\<close> is \<open>total_requests\<close> times the baseline cost per request;
  \<open>cost_savings\<close> is the baseline cost minus the total cost; \<open>suppression_rate\<close> is the
  suppression counter divided by \<open>total_requests\<close>, and 0 when there are no requests.
  \<open>cost_reduction_factor\<close> never raises; it is the float quotient of the baseline cost
  by the total cost when the total cost is not 0; when the total cost is 0 it is the
  infinity if the baseline cost is greater than 0 and 1 if not, so 1 when both are 0.
  It is the infinity when the total cost is 0 and the baseline cost greater than 0, and
  also when the total cost is not 0 and the quotient is infinite: the quotient of two
  finite floats overflows, or the baseline cost is an infinity of the sign of a finite
  total cost.
\<close>

theorem cost_aggregate_laws:
  "reachable t \<Longrightarrow>
     total_requests t = sum_list (map snd (layer_counts t))
   \<and> total_cost t = fsum (map snd (layer_costs t))
   \<and> baseline_cost t = fmul (Fin (real (total_requests t))) (baseline_cost_per_request t)
   \<and> cost_savings t = fsub (baseline_cost t) (total_cost t)
   \<and> suppression_rate t
        = (if total_requests t = 0 then 0
           else real (suppressions t) / real (total_requests t))
   \<and> (\<exists>f. cost_reduction_factor t = Some f)
   \<and> (total_cost t \<noteq> Fin 0 \<longrightarrow>
        cost_reduction_factor t = truediv (baseline_cost t) (total_cost t))
   \<and> (total_cost t = Fin 0 \<and> is_pos (baseline_cost t) \<longrightarrow>
        cost_reduction_factor t = Some PInf)
   \<and> (total_cost t = Fin 0 \<and> \<not> is_pos (baseline_cost t) \<longrightarrow>
        cost_reduction_factor t = Some (Fin 1))
   \<and> (total_cost t = Fin 0 \<and> baseline_cost t = Fin 0 \<longrightarrow>
        cost_reduction_factor t = Some (Fin 1))
   \<and> (cost_reduction_factor t = Some PInf \<longleftrightarrow>
        total_cost t = Fin 0 \<and> is_pos (baseline_cost t)
        \<or> (\<exists>b c. baseline_cost t = Fin b \<and> total_cost t = Fin c \<and> c \<noteq> 0
                  \<and> b / c \<ge> float_bound)
        \<or> (\<exists>c. baseline_cost t = PInf \<and> total_cost t = Fin c \<and> c > 0)
        \<or> (\<exists>c. baseline_cost t = NInf \<and> total_cost t = Fin c \<and> c < 0))"
proof -
  have never: "\<exists>f. cost_reduction_factor t = Some f"
    by (cases "truediv (baseline_cost t) (total_cost t)")
      (simp_all add: cost_reduction_factor_def truediv_raises)
  have inf: "cost_reduction_factor t = Some PInf \<longleftrightarrow>
        total_cost t = Fin 0 \<and> is_pos (baseline_cost t)
        \<or> (\<exists>b c. baseline_cost t = Fin b \<and> total_cost t = Fin c \<and> c \<noteq> 0
                  \<and> b / c \<ge> float_bound)
        \<or> (\<exists>c. baseline_cost t = PInf \<and> total_cost t = Fin c \<and> c > 0)
        \<or> (\<exists>c. baseline_cost t = NInf \<and> total_cost t = Fin c \<and> c < 0)"
  proof (cases "total_cost t = Fin 0")
    case True
    then show ?thesis by (simp add: cost_reduction_factor_def)
  next
    case False
    then have "cost_reduction_factor t = truediv (baseline_cost t) (total_cost t)"
      by (simp add: cost_reduction_factor_def)
    with False show ?thesis by (auto simp: truediv_PInf)
  qed
  have rest: "total_requests t = sum_list (map snd (layer_counts t))
   \<and> total_cost t = fsum (map snd (layer_costs t))
   \<and> baseline_cost t = fmul (Fin (real (total_requests t))) (baseline_cost_per_request t)
   \<and> cost_savings t = fsub (baseline_cost t) (total_cost t)
   \<and> suppression_rate t
        = (if total_requests t = 0 then 0
           else real (suppressions t) / real (total_requests t))"
    by (simp add: total_requests_def total_cost_def baseline_cost_def cost_savings_def
        suppression_rate_def)
  have cases: "(total_cost t \<noteq> Fin 0 \<longrightarrow>
        cost_reduction_factor t = truediv (baseline_cost t) (total_cost t))
   \<and> (total_cost t = Fin 0 \<and> is_pos (baseline_cost t) \<longrightarrow>
        cost_reduction_factor t = Some PInf)
   \<and> (total_cost t = Fin 0 \<and> \<not> is_pos (baseline_cost t) \<longrightarrow>
        cost_reduction_factor t = Some (Fin 1))
   \<and> (total_cost t = Fin 0 \<and> baseline_cost t = Fin 0 \<longrightarrow>
        cost_reduction_factor t = Some (Fin 1))"
    by (simp add: cost_reduction_factor_def)
  from never inf rest cases show ?thesis by blast
qed

lemma demo_tracker_costs:
  "total_requests demo_tracker = 1"
  "total_cost demo_tracker = Fin 0"
  "baseline_cost demo_tracker = Fin 0.01"
  "suppressions demo_tracker = 1"
  by (simp_all add: demo_tracker_def record_cost_def CostTracker_init_def or_else_def Let_def
      total_requests_def total_cost_def baseline_cost_def fsum_def fadd_def fmul_def
      fl_in_range float_bound_def)

theorem cost_aggregate_laws_witness:
  "reachable demo_tracker
   \<and> total_requests demo_tracker = 1 \<and> total_cost demo_tracker = Fin 0
   \<and> baseline_cost demo_tracker = Fin 0.01 \<and> cost_savings demo_tracker = Fin 0.01
   \<and> suppression_rate demo_tracker = 1
   \<and> cost_reduction_factor demo_tracker = Some PInf"
proof -
  note t = cost_aggregate_laws [OF demo_tracker_reachable]
  have pos: "is_pos (baseline_cost demo_tracker)"
    by (simp add: demo_tracker_costs)
  from t pos demo_tracker_costs(2)
  have f: "cost_reduction_factor demo_tracker = Some PInf"
    by blast
  from t have "cost_savings demo_tracker
                 = fsub (baseline_cost demo_tracker) (total_cost demo_tracker)"
    by blast
  then have s: "cost_savings demo_tracker = Fin 0.01"
    by (simp add: demo_tracker_costs fsub_def fadd_def fl_in_range float_bound_def)
  from t have "suppression_rate demo_tracker
        = (if total_requests demo_tracker = 0 then 0
           else real (suppressions demo_tracker) / real (total_requests demo_tracker))"
    by blast
  then have r: "suppression_rate demo_tracker = 1"
    by (simp add: demo_tracker_costs)
  from demo_tracker_reachable demo_tracker_costs f s r show ?thesis by blast
qed

lemma tiny_tracker_reachable: "reachable tiny_tracker"
  unfolding tiny_tracker_def by (rule reachable.rec) (rule reachable.init)

lemma tiny_quotient: "(1 / 100) / (1 / 2 ^ 1074) \<ge> float_bound"
proof -
  have "(2::real) ^ 1074 = 2 ^ 1024 * 2 ^ 50"
    by (simp add: power_add [symmetric])
  moreover have "(100::real) \<le> 2 ^ 50"
    by simp
  moreover have "(0::real) < 2 ^ 1024"
    by simp
  ultimately have "(2::real) ^ 1024 \<le> 2 ^ 1074 / 100"
    by (simp add: field_simps)
  moreover have "float_bound \<le> 2 ^ 1024"
    by (simp add: float_bound_def)
  ultimately show ?thesis by simp
qed

text \<open>
  Against C7 as stated: after one decision of layer 2 whose cost is the least positive
  double, the total cost is that cost, not 0, the baseline cost is 0.01, and their
  quotient overflows: \<open>cost_reduction_factor\<close> is the infinity although the total cost
  is not 0.
\<close>

theorem tiny_cost_counterexample:
  "reachable tiny_tracker
   \<and> total_cost tiny_tracker = Fin (1 / 2 ^ 1074)
   \<and> total_cost tiny_tracker \<noteq> Fin 0
   \<and> baseline_cost tiny_tracker = Fin (1 / 100)
   \<and> cost_reduction_factor tiny_tracker = Some PInf"
proof -
  have small: "\<bar>1 / 2 ^ 1074\<bar> < float_bound"
  proof -
    have "(1::real) / 2 ^ 1074 \<le> 1"
      by simp
    moreover have "(1::real) < float_bound"
      by (simp add: float_bound_def)
    ultimately show ?thesis by simp
  qed
  have hundredth: "\<bar>1 / 100\<bar> < float_bound"
    by (simp add: float_bound_def)
  have tc: "total_cost tiny_tracker = Fin (1 / 2 ^ 1074)"
    using fl_in_range [OF small]
    by (simp add: tiny_tracker_def record_cost_def CostTracker_init_def or_else_def Let_def
        total_cost_def fsum_def fadd_def fl_zero)
  have nz: "total_cost tiny_tracker \<noteq> Fin 0"
    by (simp add: tc)
  have bc: "baseline_cost tiny_tracker = Fin (1 / 100)"
    using fl_in_range [OF hundredth]
    by (simp add: tiny_tracker_def record_cost_def CostTracker_init_def or_else_def Let_def
        baseline_cost_def total_requests_def fmul_def)
  have "truediv (Fin (1 / 100)) (Fin (1 / 2 ^ 1074)) = Some PInf"
    using tiny_quotient by (simp add: truediv_def fl_eq_PInf del: divide_divide_eq_right)
  with nz have f: "cost_reduction_factor tiny_tracker = Some PInf"
    by (simp add: cost_reduction_factor_def tc bc)
  from tiny_tracker_reachable tc nz bc f show ?thesis by blast
qed

subsection \<open>Layer 1\<close>

lemma demo_layer1_eq:
  "demo_layer1 = \<lparr>patterns = [], confidence_threshold = 0.85, shared_state = 0,
           cache = Map.empty, l1_match_count = 0, l1_cost = 0\<rparr>"
  "demo_store = \<lparr>objects = (\<lambda>a. empty_dict), next_addr = 1\<rparr>"
  by (simp_all add: demo_layer1_def demo_store_def Layer1Tactical_init_def or_new_dict_def
      new_dict_def store0_def fun_eq_iff)

text \<open>
  C5. \<open>learn_pattern\<close> with a confidence below 0.90 returns \<open>None\<close> and changes neither
  the layer nor the store, and so it does for a content without a token. With a
  confidence of at least 0.90 and a content whose lowercased form has the first token
  \<open>key\<close>, it returns the name \<open>learned_key_category\<close>, binds this name in the local
  patterns to a pattern with the regex \<open>key\<close>, the category, the confidence and the
  learner, and changes nothing else of the layer; in the shared dictionary of the layer it
  binds the category (overwriting an entry it had) to the confidence, the learner and the
  time, and leaves the other categories, the other keys and the other dictionaries of the
  store as they were.
\<close>

theorem learn_pattern_threshold:
  "(conf < 0.90 \<longrightarrow> learn_pattern now st l1 content cat conf who = (None, l1, st))
   \<and> (conf \<ge> 0.90 \<and> split_ws (lower content) = [] \<longrightarrow>
      learn_pattern now st l1 content cat conf who = (None, l1, st))
   \<and> (conf \<ge> 0.90 \<and> split_ws (lower content) = key # rest \<longrightarrow>
      (case learn_pattern now st l1 content cat conf who of
         (res, l1', st') \<Rightarrow>
           (let pname = ''learned_'' @ key @ ''_'' @ cat;
                learned = \<lparr>name = pname, regex = key, p_category = cat, p_confidence = conf,
                           learned_at = Some now, learned_by = who, match_count = 0\<rparr>;
                entry = \<lparr>si_confidence = Some conf, si_learned_by = who,
                         si_learned_at = Some now\<rparr>
            in res = Some pname
               \<and> map_of (patterns l1') = (map_of (patterns l1))(pname \<mapsto> learned)
               \<and> l1' = l1\<lparr>patterns := patterns l1'\<rparr>
               \<and> learned_patterns (objects st' (shared_state l1)) \<noteq> None
               \<and> map_of (shared_patterns st' (shared_state l1))
                    = (map_of (shared_patterns st (shared_state l1)))(cat \<mapsto> entry)
               \<and> other_keys (objects st' (shared_state l1))
                    = other_keys (objects st (shared_state l1))
               \<and> (\<forall>a. a \<noteq> shared_state l1 \<longrightarrow> objects st' a = objects st a)
               \<and> next_addr st' = next_addr st)))"
  by (simp add: learn_pattern_def Let_def update_conv' shared_patterns_def)

lemma split_billing:
  "split_ws (lower ''Billing question about invoice'')
     = [''billing'', ''question'', ''about'', ''invoice'']"
  by (simp add: split_ws_def lower_def lower_char_def is_space_def)

theorem learn_pattern_threshold_witness:
  "(0.95::real) \<ge> 0.90
   \<and> split_ws (lower ''Billing question about invoice'')
       = ''billing'' # [''question'', ''about'', ''invoice'']
   \<and> fst (learn_pattern 3 demo_store demo_layer1 ''Billing question about invoice''
            ''billing'' 0.95 (Some ''agent_a''))
       = Some ''learned_billing_billing''
   \<and> map_of (shared_patterns
               (snd (snd (learn_pattern 3 demo_store demo_layer1
                            ''Billing question about invoice'' ''billing'' 0.95
                            (Some ''agent_a'')))) 0) ''billing''
       = Some \<lparr>si_confidence = Some 0.95, si_learned_by = Some ''agent_a'',
                si_learned_at = Some 3\<rparr>
   \<and> (0.80::real) < 0.90
   \<and> learn_pattern 3 demo_store demo_layer1 ''some content'' ''category'' 0.80 None
       = (None, demo_layer1, demo_store)"
  using learn_pattern_threshold [where conf = "0.95" and now = 3 and st = demo_store
        and ?l1.0 = demo_layer1 and content = "''Billing question about invoice''"
        and cat = "''billing''" and who = "Some ''agent_a''" and key = "''billing''"
        and rest = "[''question'', ''about'', ''invoice'']"]
    learn_pattern_threshold [where conf = "0.80" and now = 3 and st = demo_store
        and ?l1.0 = demo_layer1 and content = "''some content''" and cat = "''category''"
        and who = None]
  by (simp add: split_billing Let_def demo_layer1_eq split: prod.splits)

lemma scan_patterns_filter:
  "scan_patterns search thr c (filter (well_formed search c) ps) = scan_patterns search thr c ps"
  by (induction ps) (auto simp: well_formed_def split: search_outcome.splits)

lemma scan_patterns_skip:
  "search (regex bad) c = ReError \<Longrightarrow>
   scan_patterns search thr c (before @ (n, bad) # after)
     = scan_patterns search thr c (before @ after)"
  by (induction before) (auto split: search_outcome.splits)

lemma scan_patterns_raises:
  "scan_patterns search thr c ps = Inl e \<Longrightarrow>
   e = EngineError \<and> (\<exists>entry \<in> set ps. search (regex (snd entry)) c = OtherError)"
  by (induction ps) (auto split: search_outcome.splits if_splits)

lemma scan_patterns_member:
  "scan_patterns search thr c ps = Inr (Some entry) \<Longrightarrow> entry \<in> set ps"
  by (induction ps) (auto split: search_outcome.splits if_splits)

lemma match_keeps_names:
  "map fst (patterns (snd (match ev st l1 content))) = map fst (patterns l1)"
  by (auto simp: match_def Let_def update_keys image_iff
      split: option.splits sum.splits prod.splits dest!: scan_patterns_member)

lemma match_raises:
  "fst (match ev st l1 content) = Inl e \<Longrightarrow>
   (e = UnicodeEncodeError \<and> str_encode ev (lower content) = None)
   \<or> (e = EngineError
       \<and> (\<exists>entry \<in> set (patterns l1).
             re_search ev (regex (snd entry)) (lower content) = OtherError))"
  by (auto simp: match_def Let_def split: option.splits sum.splits prod.splits if_splits
      dest: scan_patterns_raises)

lemma match_unencodable:
  "str_encode ev (lower content) = None \<Longrightarrow>
   match ev st l1 content
     = (Inl UnicodeEncodeError, l1\<lparr>l1_match_count := l1_match_count l1 + 1\<rparr>)"
  by (simp add: match_def Let_def)

lemma match_filter:
  "fst (match ev st
          (l1\<lparr>patterns := filter (well_formed (re_search ev) (lower content)) (patterns l1)\<rparr>)
          content)
   = fst (match ev st l1 content)"
  by (simp add: match_def Let_def scan_patterns_filter
      split: option.splits sum.splits prod.splits)

text \<open>
  The path the loop does handle. A registered pattern on which the engine raises
  \<^verbatim>\<open>re.error\<close> is skipped: \<open>match\<close> answers as it would with these patterns removed, the
  scan of a list with such a pattern in it is the scan of the list without it, \<open>match\<close>
  returns without raising whenever the content can be encoded and the engine raises
  nothing but \<^verbatim>\<open>re.error\<close> on the registered patterns, and the registered names stay as
  they were.
\<close>

lemma re_error_is_skipped:
  "fst (match ev st
          (l1\<lparr>patterns := filter (well_formed (re_search ev) (lower content)) (patterns l1)\<rparr>)
          content)
     = fst (match ev st l1 content)
   \<and> (re_search ev (regex bad) (lower content) = ReError \<longrightarrow>
        scan_patterns (re_search ev) thr (lower content) (before @ (n, bad) # after)
          = scan_patterns (re_search ev) thr (lower content) (before @ after))
   \<and> (str_encode ev (lower content) \<noteq> None
        \<and> list_all (\<lambda>entry. re_search ev (regex (snd entry)) (lower content) \<noteq> OtherError)
              (patterns l1)
        \<longrightarrow> (\<exists>r. fst (match ev st l1 content) = Inr r))
   \<and> map fst (patterns (snd (match ev st l1 content))) = map fst (patterns l1)"
proof -
  have raise: "str_encode ev (lower content) \<noteq> None
        \<and> list_all (\<lambda>entry. re_search ev (regex (snd entry)) (lower content) \<noteq> OtherError)
              (patterns l1)
        \<longrightarrow> (\<exists>r. fst (match ev st l1 content) = Inr r)"
  proof
    assume a: "str_encode ev (lower content) \<noteq> None
        \<and> list_all (\<lambda>entry. re_search ev (regex (snd entry)) (lower content) \<noteq> OtherError)
              (patterns l1)"
    show "\<exists>r. fst (match ev st l1 content) = Inr r"
    proof (cases "fst (match ev st l1 content)")
      case (Inl e)
      from match_raises [OF this] a show ?thesis by (auto simp: list_all_iff)
    next
      case (Inr r)
      then show ?thesis by blast
    qed
  qed
  show ?thesis
    using raise by (simp add: match_filter scan_patterns_skip match_keeps_names)
qed

lemma lower_some_urgent: "lower ''Some URGENT content'' = ''some urgent content''"
  by (simp add: lower_def lower_char_def)

lemma re_error_is_skipped_example:
  "re_search demo_env ''[invalid'' (lower ''Some URGENT content'') = ReError
   \<and> fst (match demo_env demo_store invalid_then_urgent ''Some URGENT content'')
       = Inr (Some \<lparr>matched = True, pattern_name = Some ''urgent'', m_category = Some ''urgent'',
                     m_confidence = 0.95, m_method = ''pattern_cached''\<rparr>)"
proof -
  have bad: "re_search demo_env ''[invalid'' (lower ''Some URGENT content'') = ReError"
    by (simp add: demo_env_def demo_search_def)
  have run: "fst (match demo_env demo_store
                   (invalid_then_urgent
                      \<lparr>patterns :=
                         filter (well_formed (re_search demo_env) (lower ''Some URGENT content''))
                           (patterns invalid_then_urgent)\<rparr>) ''Some URGENT content'')
       = Inr (Some \<lparr>matched = True, pattern_name = Some ''urgent'', m_category = Some ''urgent'',
                     m_confidence = 0.95, m_method = ''pattern_cached''\<rparr>)"
    by (simp add: invalid_then_urgent_def add_pattern_def demo_layer1_eq demo_env_def
        demo_search_def match_def lower_some_urgent Let_def well_formed_def lower_def
        lower_char_def)
  from re_error_is_skipped [where ev = demo_env and st = demo_store
      and ?l1.0 = invalid_then_urgent and content = "''Some URGENT content''"] run
  have "fst (match demo_env demo_store invalid_then_urgent ''Some URGENT content'')
       = Inr (Some \<lparr>matched = True, pattern_name = Some ''urgent'', m_category = Some ''urgent'',
                     m_confidence = 0.95, m_method = ''pattern_cached''\<rparr>)"
    by simp
  with bad show ?thesis by simp
qed

subsection \<open>The orchestrator\<close>

lemma reason_cost: "reason l2 s = (r, l2') \<Longrightarrow> r_cost r = cost_per_call l2"
  by (auto simp: reason_def call_model_def Let_def simulated_reason_cost split: if_splits)

text \<open>What the body of \<open>process\<close> returns, and what it leaves behind when it raises.\<close>

lemma process_try_returns:
  "process_try ev now st a request = (Inr d, a', st') \<Longrightarrow>
     cost_tracker a' = record_result now (cost_tracker a) d
     \<and> (d = rejected_decision
        \<or> (layer d = 1 \<and> cost d = 0 \<and> suppressed d)
        \<or> (layer d = 2 \<and> cost d = cost_per_call (layer2 a) \<and> \<not> suppressed d
            \<and> d_method d = ''llm''))"
  unfolding process_try_def Let_def
  by (auto split: prod.splits sum.splits option.splits pyval.splits if_splits
      dest: reason_cost)

lemma process_try_raises:
  "process_try ev now st a request = (Inl e, a', st') \<Longrightarrow>
     cost_tracker a' = cost_tracker a \<and> suppression_count a' = suppression_count a"
  unfolding process_try_def Let_def
  by (auto split: prod.splits sum.splits option.splits pyval.splits if_splits)

lemma process_Inl:
  "process_try ev now st a request = (Inl e, a1, st1) \<Longrightarrow>
   process ev now st a request
     = (error_decision,
        a1\<lparr>cost_tracker := record_result now (cost_tracker a1) error_decision\<rparr>, st1)"
  by (simp add: process_def)

lemma process_Inr:
  "process_try ev now st a request = (Inr d, a1, st1) \<Longrightarrow>
   process ev now st a request = (d, a1, st1)"
  by (simp add: process_def)

lemma process_tracker:
  "cost_tracker (fst (snd (process ev now st a request)))
     = record_result now (cost_tracker a) (fst (process ev now st a request))"
proof (cases "process_try ev now st a request" rule: prod_cases3)
  case (fields r a1 st1)
  show ?thesis
  proof (cases r)
    case (Inl e)
    with fields process_try_raises [of ev now st a request e a1 st1] show ?thesis
      by (simp add: process_Inl)
  next
    case (Inr d)
    with fields process_try_returns [of ev now st a request d a1 st1] show ?thesis
      by (simp add: process_Inr)
  qed
qed

lemma process_decision:
  "(\<exists>e. fst (process_try ev now st a request) = Inl e)
     \<and> fst (process ev now st a request) = error_decision
   \<or> fst (process_try ev now st a request) = Inr (fst (process ev now st a request))
     \<and> (fst (process ev now st a request) = rejected_decision
        \<or> (layer (fst (process ev now st a request)) = 1
            \<and> cost (fst (process ev now st a request)) = 0
            \<and> suppressed (fst (process ev now st a request)))
        \<or> (layer (fst (process ev now st a request)) = 2
            \<and> cost (fst (process ev now st a request)) = cost_per_call (layer2 a)
            \<and> \<not> suppressed (fst (process ev now st a request))))"
proof (cases "process_try ev now st a request" rule: prod_cases3)
  case (fields r a1 st1)
  show ?thesis
  proof (cases r)
    case (Inl e)
    with fields show ?thesis by (simp add: process_Inl)
  next
    case (Inr d)
    with fields process_try_returns [of ev now st a request d a1 st1] show ?thesis
      by (auto simp: process_Inr)
  qed
qed

text \<open>The paths through the body of \<open>process\<close>, one lemma each.\<close>

lemma process_try_validate_raises:
  "validate now (layer0 a) request = (Inl e, l0) \<Longrightarrow>
   process_try ev now st a request = (Inl e, a\<lparr>layer0 := l0\<rparr>, st)"
  by (simp add: process_try_def)

lemma process_try_rejected:
  "validate now (layer0 a) request = (Inr v, l0) \<Longrightarrow> \<not> valid v \<Longrightarrow>
   process_try ev now st a request
     = (Inr rejected_decision,
        a\<lparr>layer0 := l0, cost_tracker := record_result now (cost_tracker a) rejected_decision\<rparr>,
        st)"
  by (simp add: process_try_def)

lemma process_try_match_raises:
  "validate now (layer0 a) request = (Inr v, l0) \<Longrightarrow> valid v \<Longrightarrow>
   content_of request = PyStr s \<Longrightarrow> match ev st (layer1 a) s = (Inl e, l1) \<Longrightarrow>
   process_try ev now st a request = (Inl e, a\<lparr>layer0 := l0, layer1 := l1\<rparr>, st)"
  by (simp add: process_try_def content_of_def)

lemma process_try_hit:
  "validate now (layer0 a) request = (Inr v, l0) \<Longrightarrow> valid v \<Longrightarrow>
   content_of request = PyStr s \<Longrightarrow> match ev st (layer1 a) s = (Inr (Some m), l1) \<Longrightarrow>
   matched m \<Longrightarrow>
   process_try ev now st a request
     = (Inr (match_decision m),
        a\<lparr>layer0 := l0, layer1 := l1, suppression_count := suppression_count a + 1,
          cost_tracker := record_result now (cost_tracker a) (match_decision m)\<rparr>, st)"
  by (simp add: process_try_def content_of_def Let_def match_decision_def)

lemma process_try_miss:
  "validate now (layer0 a) request = (Inr v, l0) \<Longrightarrow> valid v \<Longrightarrow>
   content_of request = PyStr s \<Longrightarrow> match ev st (layer1 a) s = (Inr None, l1) \<Longrightarrow>
   reason (layer2 a) s = (fm, l2) \<Longrightarrow>
   process_try ev now st a request
     = (Inr (llm_decision fm),
        a\<lparr>layer0 := l0, layer2 := l2,
          layer1 := fst (learn_if_confident now st l1 s fm (agent_id a)),
          cost_tracker := record_result now (cost_tracker a) (llm_decision fm)\<rparr>,
        snd (learn_if_confident now st l1 s fm (agent_id a)))"
  by (simp add: process_try_def content_of_def Let_def llm_decision_def learn_if_confident_def
      split: prod.splits)

text \<open>
  C1, amended. The decision of every call of \<open>process\<close> has layer 0, 1 or 2. Its cost is
  0 at the layers 0 and 1, so a positive cost occurs at layer 2 only, and at layer 2 the
  cost is \<open>cost_per_call\<close> of the deliberative stage. A suppressed decision has a layer
  below 2, and a decision with a layer below 2 is suppressed unless it is the decision of
  the error handler (layer 0, not suppressed), which is returned exactly when the body of
  \<open>process\<close> raises.
\<close>

theorem decision_cost_and_suppression:
  "layer (fst (process ev now st a request)) \<in> {0, 1, 2}
   \<and> (layer (fst (process ev now st a request)) \<in> {0, 1}
        \<longrightarrow> cost (fst (process ev now st a request)) = 0)
   \<and> (cost (fst (process ev now st a request)) > 0
        \<longrightarrow> layer (fst (process ev now st a request)) = 2)
   \<and> (layer (fst (process ev now st a request)) = 2
        \<longrightarrow> cost (fst (process ev now st a request)) = cost_per_call (layer2 a))
   \<and> (suppressed (fst (process ev now st a request))
        \<longrightarrow> layer (fst (process ev now st a request)) < 2)
   \<and> (layer (fst (process ev now st a request)) < 2
        \<longrightarrow> suppressed (fst (process ev now st a request))
            \<or> fst (process ev now st a request) = error_decision)
   \<and> (fst (process ev now st a request) = error_decision
        \<longleftrightarrow> (\<exists>e. fst (process_try ev now st a request) = Inl e))"
  using process_decision [of ev now st a request]
  by (auto simp: error_decision_def rejected_decision_def)

text \<open>A new agent with the default settings, and two requests run on it.\<close>

lemma demo_agent_eq:
  "demo_agent =
     \<lparr>agent_id = ''spl_agent'', a_shared_state = 0, a_confidence_threshold = 0.85,
      layer0 = Layer0Reactive_default,
      layer1 = \<lparr>patterns = [], confidence_threshold = 0.85, shared_state = 1,
                cache = Map.empty, l1_match_count = 0, l1_cost = 0\<rparr>,
      layer2 = Layer2Deliberative_default, cost_tracker = CostTracker_init,
      suppression_count = 0\<rparr>"
  by (simp add: demo_agent_def SPLAgent_init_def Layer1Tactical_init_def or_new_dict_def
      new_dict_def store0_def truthy_def empty_dict_def)

lemma agent_store_eq: "agent_store = \<lparr>objects = (\<lambda>a. empty_dict), next_addr = 2\<rparr>"
  by (simp add: agent_store_def SPLAgent_init_def Layer1Tactical_init_def or_new_dict_def
      new_dict_def store0_def truthy_def empty_dict_def fun_eq_iff)

lemma validate_list_user:
  "validate 0 (layer0 demo_agent) list_user_request
     = (Inl TypeError, Layer0Reactive_default\<lparr>validation_count := 1\<rparr>)"
  by (simp add: validate_def list_user_request_def dict_get_def Layer0Reactive_default_def
      Layer0Reactive_init_def lower_def lower_char_def check_rate_limit_def Let_def
      demo_agent_eq)

lemma lower_urgent_call: "lower ''Urgent call'' = ''urgent call''"
  by (simp add: lower_def lower_char_def)

lemma validate_urgent:
  "validate 0 (layer0 demo_agent) urgent_request =
     (Inr passed,
      Layer0Reactive_default
        \<lparr>validation_count := 1,
         rate_limits := [PyStr ''user123'' \<mapsto> \<lparr>count = 1, window_start = 0\<rparr>]\<rparr>)"
  by (simp add: validate_def urgent_request_def dict_get_def Layer0Reactive_default_def
      Layer0Reactive_init_def check_rate_limit_def Let_def passed_def demo_agent_eq)

lemma match_urgent:
  "match demo_env agent_store (layer1 demo_agent) ''Urgent call''
     = (Inr None,
        (layer1 demo_agent)\<lparr>l1_match_count := 1, cache := [''urgent call'' \<mapsto> no_match]\<rparr>)"
  by (simp add: match_def demo_env_def demo_agent_eq agent_store_eq Let_def empty_dict_def
      lower_urgent_call)

lemma reason_urgent:
  "reason (layer2 demo_agent) ''Urgent call''
     = (\<lparr>r_category = ''urgent'', r_confidence = 0.92, r_cost = 0.01,
         reasoning = Some ''Contains urgency indicators'', model = Some ''simulated''\<rparr>,
        Layer2Deliberative_default\<lparr>call_count := 1, l2_total_cost := 0.01\<rparr>)"
  by (simp add: reason_def simulated_reason_def Layer2Deliberative_default_def
      Layer2Deliberative_init_def Let_def lower_urgent_call demo_agent_eq)

lemma content_urgent: "content_of urgent_request = PyStr ''Urgent call''"
  by (simp add: content_of_def urgent_request_def dict_get_def)

lemma process_urgent:
  "fst (process demo_env 0 agent_store demo_agent urgent_request)
     = \<lparr>category = ''urgent'', d_method = ''llm'', confidence = 0.92, cost = 0.01, layer = 2,
        suppressed = False\<rparr>"
  by (simp add: process_Inr [OF process_try_miss [OF validate_urgent valid_passed(1)
          content_urgent match_urgent reason_urgent]] llm_decision_def)

theorem decision_cost_and_suppression_witness:
  "layer (fst (process demo_env 0 agent_store demo_agent urgent_request)) = 2
   \<and> cost (fst (process demo_env 0 agent_store demo_agent urgent_request))
       = cost_per_call (layer2 demo_agent)
   \<and> \<not> suppressed (fst (process demo_env 0 agent_store demo_agent urgent_request))"
proof -
  have l2: "layer (fst (process demo_env 0 agent_store demo_agent urgent_request)) = 2"
    by (simp add: process_urgent)
  have ns: "\<not> suppressed (fst (process demo_env 0 agent_store demo_agent urgent_request))"
    by (simp add: process_urgent)
  from l2 decision_cost_and_suppression [of demo_env 0 agent_store demo_agent urgent_request]
  have "cost (fst (process demo_env 0 agent_store demo_agent urgent_request))
          = cost_per_call (layer2 demo_agent)"
    by blast
  with l2 ns show ?thesis by blast
qed

text \<open>
  Against C1 as stated: a request whose user id is a list passes the first three checks
  and makes the rate limiter raise \<open>TypeError\<close>; the handler answers with layer 0 and
  \<open>suppressed = False\<close>, so \<open>suppressed\<close> is not equivalent to a layer below 2.
\<close>

theorem error_decision_counterexample:
  "\<not> (suppressed (fst (process demo_env 0 agent_store demo_agent list_user_request))
        \<longleftrightarrow> layer (fst (process demo_env 0 agent_store demo_agent list_user_request)) < 2)"
  by (simp add: process_Inl [OF process_try_validate_raises [OF validate_list_user]]
      error_decision_def)

lemma records_record_result:
  "records (record_result now t d) = records t @ [cost_record_of now d]"
  by (simp add: record_result_def record_cost_def or_else_def Let_def cost_record_of_def)

lemma validate_not_string:
  "\<forall>s. content_of request \<noteq> PyStr s \<Longrightarrow>
   validate now l0 request
     = (Inr (failed ''Content must be a string''), l0\<lparr>validation_count := validation_count l0 + 1\<rparr>)"
  by (cases "content_of request") (auto simp: validate_def content_of_def Let_def)

lemma process_not_string:
  "\<forall>s. content_of request \<noteq> PyStr s \<Longrightarrow>
   fst (process ev now st a request) = rejected_decision"
  by (simp add: process_Inr [OF process_try_rejected [OF validate_not_string valid_passed(2)]])

text \<open>
  C2. \<open>process\<close> returns a decision for every request. When its body raises, in the
  validation or in the pattern layer, the decision is the one of the handler: category
  ERROR, method error_handler, confidence 0, cost 0, layer 0, not suppressed. On every
  path the tracker gets exactly one new record, the one of the decision returned. A
  content that is not a string is rejected by the validation and raises nothing.
\<close>

theorem process_returns_and_records:
  "(\<exists>d a' st'. process ev now st a request = (d, a', st'))
   \<and> ((\<exists>e. fst (process_try ev now st a request) = Inl e) \<longrightarrow>
        fst (process ev now st a request)
          = \<lparr>category = ''ERROR'', d_method = ''error_handler'', confidence = 0, cost = 0,
             layer = 0, suppressed = False\<rparr>)
   \<and> records (cost_tracker (fst (snd (process ev now st a request))))
       = records (cost_tracker a) @ [cost_record_of now (fst (process ev now st a request))]
   \<and> ((\<forall>s. content_of request \<noteq> PyStr s) \<longrightarrow>
        fst (process ev now st a request) = rejected_decision)"
proof -
  have ex: "\<exists>d a' st'. process ev now st a request = (d, a', st')"
    by (cases "process ev now st a request" rule: prod_cases3) blast
  have err: "(\<exists>e. fst (process_try ev now st a request) = Inl e) \<longrightarrow>
        fst (process ev now st a request)
          = \<lparr>category = ''ERROR'', d_method = ''error_handler'', confidence = 0, cost = 0,
             layer = 0, suppressed = False\<rparr>"
    using process_decision [of ev now st a request] by (auto simp: error_decision_def)
  show ?thesis
    using ex err by (simp add: process_tracker records_record_result process_not_string)
qed

lemma demo_tracker_empty: "records (cost_tracker demo_agent) = []"
  by (simp add: demo_agent_eq CostTracker_init_def)

lemma validate_overflow:
  "validate 0 (layer0 overflow_agent) urgent_request =
     (Inr passed,
      Layer0Reactive_default
        \<lparr>validation_count := 1,
         rate_limits := [PyStr ''user123'' \<mapsto> \<lparr>count = 1, window_start = 0\<rparr>]\<rparr>)"
  using validate_urgent by (simp add: overflow_agent_def)

lemma match_overflow:
  "match demo_env agent_store (layer1 overflow_agent) ''Urgent call''
     = (Inl EngineError, (layer1 overflow_agent)\<lparr>l1_match_count := 1\<rparr>)"
  by (simp add: match_def overflow_agent_def add_pattern_def demo_env_def demo_search_def
      demo_agent_eq Let_def)

lemma process_try_overflow:
  "fst (process_try demo_env 0 agent_store overflow_agent urgent_request) = Inl EngineError"
  by (simp add: process_try_match_raises [OF validate_overflow valid_passed(1) content_urgent
        match_overflow])

theorem process_returns_and_records_witness:
  "fst (process_try demo_env 0 agent_store demo_agent list_user_request) = Inl TypeError
   \<and> fst (process demo_env 0 agent_store demo_agent list_user_request)
       = \<lparr>category = ''ERROR'', d_method = ''error_handler'', confidence = 0, cost = 0,
          layer = 0, suppressed = False\<rparr>
   \<and> records (cost_tracker
                (fst (snd (process demo_env 0 agent_store demo_agent list_user_request))))
       = [\<lparr>cr_layer = 0, cr_cost = Fin 0, cr_category = ''ERROR'', cr_method = ''error_handler'',
           cr_timestamp = 0, cr_confidence = 0\<rparr>]
   \<and> fst (process_try demo_env 0 agent_store overflow_agent urgent_request) = Inl EngineError
   \<and> fst (process demo_env 0 agent_store overflow_agent urgent_request)
       = \<lparr>category = ''ERROR'', d_method = ''error_handler'', confidence = 0, cost = 0,
          layer = 0, suppressed = False\<rparr>
   \<and> content_of none_request = PyNone
   \<and> fst (process demo_env 0 agent_store demo_agent none_request) = rejected_decision"
proof -
  have raised:
    "fst (process_try demo_env 0 agent_store demo_agent list_user_request) = Inl TypeError"
    by (simp add: process_try_validate_raises [OF validate_list_user])
  note t = process_returns_and_records [of demo_env 0 agent_store demo_agent list_user_request]
  from raised t have d: "fst (process demo_env 0 agent_store demo_agent list_user_request)
       = \<lparr>category = ''ERROR'', d_method = ''error_handler'', confidence = 0, cost = 0,
          layer = 0, suppressed = False\<rparr>"
    by blast
  from t have "records (cost_tracker
                  (fst (snd (process demo_env 0 agent_store demo_agent list_user_request))))
       = records (cost_tracker demo_agent)
         @ [cost_record_of 0 (fst (process demo_env 0 agent_store demo_agent list_user_request))]"
    by blast
  then have r: "records (cost_tracker
                  (fst (snd (process demo_env 0 agent_store demo_agent list_user_request))))
       = [\<lparr>cr_layer = 0, cr_cost = Fin 0, cr_category = ''ERROR'', cr_method = ''error_handler'',
           cr_timestamp = 0, cr_confidence = 0\<rparr>]"
    by (simp add: d cost_record_of_def demo_tracker_empty)
  from process_try_overflow
    process_returns_and_records [of demo_env 0 agent_store overflow_agent urgent_request]
  have e: "fst (process demo_env 0 agent_store overflow_agent urgent_request)
       = \<lparr>category = ''ERROR'', d_method = ''error_handler'', confidence = 0, cost = 0,
          layer = 0, suppressed = False\<rparr>"
    by blast
  have c: "content_of none_request = PyNone"
    by (simp add: content_of_def none_request_def dict_get_def)
  with process_returns_and_records [of demo_env 0 agent_store demo_agent none_request]
  have "fst (process demo_env 0 agent_store demo_agent none_request) = rejected_decision"
    by simp
  with raised d r c e process_try_overflow show ?thesis by blast
qed

lemma suppressions_record_result:
  "suppressions (record_result now t d) = suppressions t + (if layer d < 2 then 1 else 0)"
  by (simp add: record_result_def record_cost_def or_else_def Let_def)

lemma process_suppression_count:
  "suppression_count (fst (snd (process ev now st a request)))
     = suppression_count a + (if layer (fst (process ev now st a request)) = 1 then 1 else 0)"
proof (cases "process_try ev now st a request" rule: prod_cases3)
  case (fields r a1 st1)
  show ?thesis
  proof (cases r)
    case (Inl e)
    with fields process_try_raises [of ev now st a request e a1 st1] show ?thesis
      by (simp add: process_Inl error_decision_def)
  next
    case (Inr d)
    with fields show ?thesis
      unfolding process_Inr [OF fields [unfolded Inr]]
      by (auto simp: process_try_def Let_def rejected_decision_def
          split: prod.splits sum.splits option.splits pyval.splits if_splits)
  qed
qed

lemma process_suppressions:
  "suppressions (cost_tracker (fst (snd (process ev now st a request))))
     = suppressions (cost_tracker a) + (if layer (fst (process ev now st a request)) < 2 then 1 else 0)"
  by (simp add: process_tracker suppressions_record_result)

lemma SPLAgent_init_counters:
  "cost_tracker (fst (SPLAgent_init ident shared threshold st)) = CostTracker_init
   \<and> suppression_count (fst (SPLAgent_init ident shared threshold st)) = 0"
  by (simp add: SPLAgent_init_def Let_def split: prod.splits)

lemma reachable_agent_counters:
  "reachable_agent a \<Longrightarrow>
     suppressions (cost_tracker a) = count_below_2 (cost_tracker a)
     \<and> suppression_count a = count_layer_1 (cost_tracker a)"
proof (induction rule: reachable_agent.induct)
  case (created ident shared threshold st)
  show ?case
    by (simp add: SPLAgent_init_counters CostTracker_init_def count_below_2_def count_layer_1_def)
next
  case (processed a ev now st request)
  then show ?case
    by (simp add: suppressions_record_result process_suppression_count count_below_2_def
        count_layer_1_def process_tracker records_record_result cost_record_of_def)
next
  case (configured a l0 l1 l2)
  then show ?case by simp
next
  case (was_reset a)
  show ?case
    by (simp add: reset_agent_def reset_tracker_def count_below_2_def count_layer_1_def)
qed

lemma filter_le_filter:
  "length (filter (\<lambda>r. cr_layer r = 1) rs) \<le> length (filter (\<lambda>r. cr_layer r < 2) rs)"
  by (induction rs) auto

lemma filter_less_filter:
  "list_ex (\<lambda>r. cr_layer r = 0) rs \<Longrightarrow>
   length (filter (\<lambda>r. cr_layer r = 1) rs) < length (filter (\<lambda>r. cr_layer r < 2) rs)"
proof (induction rs)
  case Nil
  then show ?case by simp
next
  case (Cons r rs)
  show ?case
  proof (cases "cr_layer r = 0")
    case True
    with filter_le_filter [of rs] show ?thesis by simp
  next
    case False
    with Cons show ?thesis by auto
  qed
qed

lemma rejecting_agent_reachable: "reachable_agent rejecting_agent"
  unfolding rejecting_agent_def demo_agent_def
  by (rule reachable_agent.processed) (rule reachable_agent.created)

lemma validate_short:
  "validate 0 (layer0 demo_agent) short_request
     = (Inr (failed ''Content too short (min 5 chars)''),
        Layer0Reactive_default\<lparr>validation_count := 1\<rparr>)"
  by (simp add: validate_def short_request_def dict_get_def Layer0Reactive_default_def
      Layer0Reactive_init_def Let_def demo_agent_eq str_of_int_def str_of_nat.simps [of 5])

lemma rejecting_agent_eq:
  "rejecting_agent =
     demo_agent\<lparr>layer0 := Layer0Reactive_default\<lparr>validation_count := 1\<rparr>,
                cost_tracker := record_result 0 (cost_tracker demo_agent) rejected_decision\<rparr>"
  by (simp add: rejecting_agent_def
      process_Inr [OF process_try_rejected [OF validate_short valid_passed(2)]])

lemma rejecting_agent_report:
  "rep_suppression_rate (report rejecting_agent) = 1
   \<and> total_requests (cost_tracker rejecting_agent) = 1
   \<and> rep_suppressions (report rejecting_agent) = 0"
  by (simp add: rejecting_agent_eq report_def suppression_rate_def total_requests_def
      record_result_def record_cost_def or_else_def Let_def rejected_decision_def
      demo_agent_eq CostTracker_init_def)

text \<open>
  C10. In every agent that can be reached, the suppression counter of the tracker is the
  number of records with a layer below 2 and the counter of the agent is the number of
  records with layer 1; so the agent's counter is at most the tracker's, and smaller as
  soon as a record of layer 0 (a rejection or an ERROR decision) exists. A call of
  \<open>process\<close> adds one to the tracker's counter when the layer of its decision is below
  2, and one to the agent's counter when it is 1. In \<open>report\<close> the suppression rate is
  the tracker's and the suppressions are the agent's counter, and there is a reachable
  agent in which the rate times the number of requests is not the reported number of
  suppressions.
\<close>

theorem suppression_counters:
  "(reachable_agent a \<longrightarrow>
       suppressions (cost_tracker a) = count_below_2 (cost_tracker a)
     \<and> suppression_count a = count_layer_1 (cost_tracker a)
     \<and> suppression_count a \<le> suppressions (cost_tracker a)
     \<and> (list_ex (\<lambda>r. cr_layer r = 0) (records (cost_tracker a))
          \<longrightarrow> suppression_count a < suppressions (cost_tracker a)))
   \<and> suppressions (cost_tracker (fst (snd (process ev now st a request))))
       = suppressions (cost_tracker a)
         + (if layer (fst (process ev now st a request)) < 2 then 1 else 0)
   \<and> suppression_count (fst (snd (process ev now st a request)))
       = suppression_count a
         + (if layer (fst (process ev now st a request)) = 1 then 1 else 0)
   \<and> rep_suppression_rate (report a) = suppression_rate (cost_tracker a)
   \<and> rep_suppressions (report a) = suppression_count a
   \<and> (\<exists>b. reachable_agent b
          \<and> rep_suppression_rate (report b) * real (total_requests (cost_tracker b))
              \<noteq> real (rep_suppressions (report b)))"
proof -
  have inv: "reachable_agent a \<longrightarrow>
       suppressions (cost_tracker a) = count_below_2 (cost_tracker a)
     \<and> suppression_count a = count_layer_1 (cost_tracker a)
     \<and> suppression_count a \<le> suppressions (cost_tracker a)
     \<and> (list_ex (\<lambda>r. cr_layer r = 0) (records (cost_tracker a))
          \<longrightarrow> suppression_count a < suppressions (cost_tracker a))"
    using filter_le_filter [of "records (cost_tracker a)"]
      filter_less_filter [of "records (cost_tracker a)"]
    by (auto dest!: reachable_agent_counters simp: count_below_2_def count_layer_1_def)
  have ex: "\<exists>b. reachable_agent b
          \<and> rep_suppression_rate (report b) * real (total_requests (cost_tracker b))
              \<noteq> real (rep_suppressions (report b))"
    using rejecting_agent_reachable rejecting_agent_report
    by (intro exI [of _ rejecting_agent]) simp
  have rep: "rep_suppression_rate (report a) = suppression_rate (cost_tracker a)
      \<and> rep_suppressions (report a) = suppression_count a"
    by (simp add: report_def)
  from inv ex rep process_suppressions [of ev now st a request]
    process_suppression_count [of ev now st a request]
  show ?thesis by blast
qed

theorem suppression_counters_witness:
  "reachable_agent rejecting_agent
   \<and> list_ex (\<lambda>r. cr_layer r = 0) (records (cost_tracker rejecting_agent))
   \<and> suppression_count rejecting_agent < suppressions (cost_tracker rejecting_agent)
   \<and> suppression_count rejecting_agent = 0"
proof -
  have z: "list_ex (\<lambda>r. cr_layer r = 0) (records (cost_tracker rejecting_agent))"
    by (simp add: rejecting_agent_eq records_record_result cost_record_of_def
        rejected_decision_def)
  have c: "suppression_count rejecting_agent = 0"
    by (simp add: rejecting_agent_eq demo_agent_eq)
  from suppression_counters [of rejecting_agent] rejecting_agent_reachable z
  have "suppression_count rejecting_agent < suppressions (cost_tracker rejecting_agent)"
    by blast
  with rejecting_agent_reachable z c show ?thesis by blast
qed

subsection \<open>Local patterns through the orchestrator\<close>

lemma scan_first_qualifying:
  "list_all (passed_over ev thr c) before \<Longrightarrow> qualifies ev thr c p \<Longrightarrow>
   scan_patterns (re_search ev) thr c (before @ (n, p) # after) = Inr (Some (n, p))"
  by (induction before)
     (auto simp: passed_over_def qualifies_def split: search_outcome.splits)

lemma scan_none_qualifying:
  "list_all (passed_over ev thr c) ps \<Longrightarrow> scan_patterns (re_search ev) thr c ps = Inr None"
  by (induction ps) (auto simp: passed_over_def qualifies_def split: search_outcome.splits)

lemma update_in_place:
  "distinct (map fst (before @ (n, p) # after)) \<Longrightarrow>
   AList.update n v (before @ (n, p) # after) = before @ (n, v) # after"
  by (induction before) auto

lemma match_local:
  "str_encode ev (lower s) = Some encoded \<Longrightarrow>
   cache l1 (sha256_hex ev encoded) = None \<Longrightarrow>
   scan_patterns (re_search ev) (confidence_threshold l1) (lower s) (patterns l1)
     = Inr (Some (n, p)) \<Longrightarrow>
   match ev st l1 s
     = (Inr (Some \<lparr>matched = True, pattern_name = Some n, m_category = Some (p_category p),
                    m_confidence = p_confidence p, m_method = ''pattern_cached''\<rparr>),
        l1\<lparr>l1_match_count := l1_match_count l1 + 1,
           patterns := AList.update n (p\<lparr>match_count := match_count p + 1\<rparr>) (patterns l1),
           l1_cost := l1_cost l1 + 0.0001,
           cache := (cache l1)(sha256_hex ev encoded \<mapsto>
                      \<lparr>matched = True, pattern_name = Some n, m_category = Some (p_category p),
                       m_confidence = p_confidence p, m_method = ''pattern_cached''\<rparr>)\<rparr>)"
  by (simp add: match_def Let_def)

text \<open>
  C3, amended. Let a request pass the validation with the string \<open>s\<close> as its content,
  let the lowercased \<open>s\<close> be encodable as UTF-8 (it holds no lone surrogate), let the
  cache of the pattern layer have no entry for \<open>s\<close>, and let \<open>p\<close>, registered
  under the name \<open>n\<close> (the names are the keys of a dictionary, hence distinct), be the
  first pattern in registration order that qualifies, the
  engine raising nothing but \<^verbatim>\<open>re.error\<close> on the patterns before it. Then \<open>process\<close>
  returns the decision with layer 1, cost 0, suppressed, the method pattern_cached, the
  confidence of \<open>p\<close> and the category of \<open>p\<close> (unknown when that category is the empty
  string); the match count of \<open>p\<close> goes up by one, and the result is cached under the
  key of the content.
\<close>

theorem first_qualifying_pattern_wins:
  assumes "validate now (layer0 a) request = (Inr v, l0)" and "valid v"
    and "content_of request = PyStr s"
    and "str_encode ev (lower s) = Some encoded"
    and "cache (layer1 a) (sha256_hex ev encoded) = None"
    and "patterns (layer1 a) = before @ (n, p) # after"
    and "distinct (map fst (patterns (layer1 a)))"
    and "qualifies ev (confidence_threshold (layer1 a)) (lower s) p"
    and "list_all (passed_over ev (confidence_threshold (layer1 a)) (lower s)) before"
  shows "fst (process ev now st a request)
           = \<lparr>category = (if p_category p = [] then ''unknown'' else p_category p),
              d_method = ''pattern_cached'', confidence = p_confidence p, cost = 0, layer = 1,
              suppressed = True\<rparr>
         \<and> patterns (layer1 (fst (snd (process ev now st a request))))
           = before @ (n, p\<lparr>match_count := match_count p + 1\<rparr>) # after
         \<and> cache (layer1 (fst (snd (process ev now st a request)))) (sha256_hex ev encoded)
           = Some \<lparr>matched = True, pattern_name = Some n, m_category = Some (p_category p),
                   m_confidence = p_confidence p, m_method = ''pattern_cached''\<rparr>"
proof -
  from assms(6,8,9)
  have scan: "scan_patterns (re_search ev) (confidence_threshold (layer1 a)) (lower s)
                (patterns (layer1 a)) = Inr (Some (n, p))"
    by (simp add: scan_first_qualifying)
  note m = match_local [OF assms(4,5) scan, of st]
  note t = process_try_hit [OF assms(1,2,3) m]
  from assms(6,7) have upd: "AList.update n (p\<lparr>match_count := match_count p + 1\<rparr>)
      (patterns (layer1 a)) = before @ (n, p\<lparr>match_count := match_count p + 1\<rparr>) # after"
    by (simp add: update_in_place)
  show ?thesis
    using upd
    by (simp add: process_Inr [OF t [simplified]] match_decision_def category_or_unknown_def)
qed

lemma pattern_agent_layers:
  "layer0 pattern_agent = layer0 demo_agent"
  "patterns (layer1 pattern_agent) = [(''invalid'', invalid_pattern)] @ (''urgent'', urgent_pattern) # []"
  "cache (layer1 pattern_agent) = Map.empty"
  "confidence_threshold (layer1 pattern_agent) = 0.85"
  by (simp_all add: pattern_agent_def add_pattern_def demo_agent_eq invalid_pattern_def
      urgent_pattern_def)

lemma urgent_qualifies: "qualifies demo_env 0.85 (lower ''Urgent call'') urgent_pattern"
  by (simp add: qualifies_def demo_env_def demo_search_def urgent_pattern_def lower_urgent_call
      lower_def lower_char_def)

lemma invalid_passed_over:
  "list_all (passed_over demo_env 0.85 (lower ''Urgent call'')) [(''invalid'', invalid_pattern)]"
  by (simp add: passed_over_def qualifies_def demo_env_def demo_search_def invalid_pattern_def)

theorem first_qualifying_pattern_wins_witness:
  "validate 0 (layer0 pattern_agent) urgent_request
     = (Inr passed,
        Layer0Reactive_default
          \<lparr>validation_count := 1,
           rate_limits := [PyStr ''user123'' \<mapsto> \<lparr>count = 1, window_start = 0\<rparr>]\<rparr>)
   \<and> valid passed
   \<and> content_of urgent_request = PyStr ''Urgent call''
   \<and> str_encode demo_env (lower ''Urgent call'') = Some (lower ''Urgent call'')
   \<and> cache (layer1 pattern_agent) (sha256_hex demo_env (lower ''Urgent call'')) = None
   \<and> patterns (layer1 pattern_agent)
       = [(''invalid'', invalid_pattern)] @ (''urgent'', urgent_pattern) # []
   \<and> distinct (map fst (patterns (layer1 pattern_agent)))
   \<and> qualifies demo_env (confidence_threshold (layer1 pattern_agent)) (lower ''Urgent call'')
         urgent_pattern
   \<and> list_all (passed_over demo_env (confidence_threshold (layer1 pattern_agent))
                 (lower ''Urgent call'')) [(''invalid'', invalid_pattern)]
   \<and> fst (process demo_env 0 agent_store pattern_agent urgent_request)
       = \<lparr>category = ''urgent'', d_method = ''pattern_cached'', confidence = 0.95, cost = 0,
          layer = 1, suppressed = True\<rparr>
   \<and> patterns (layer1 (fst (snd (process demo_env 0 agent_store pattern_agent urgent_request))))
       = [(''invalid'', invalid_pattern), (''urgent'', urgent_pattern\<lparr>match_count := 1\<rparr>)]"
proof -
  have v: "validate 0 (layer0 pattern_agent) urgent_request
     = (Inr passed,
        Layer0Reactive_default
          \<lparr>validation_count := 1,
           rate_limits := [PyStr ''user123'' \<mapsto> \<lparr>count = 1, window_start = 0\<rparr>]\<rparr>)"
    by (simp add: pattern_agent_layers validate_urgent)
  have e: "str_encode demo_env (lower ''Urgent call'') = Some (lower ''Urgent call'')"
    by (simp add: demo_env_def)
  have c: "cache (layer1 pattern_agent) (sha256_hex demo_env (lower ''Urgent call'')) = None"
    by (simp add: pattern_agent_layers)
  have d: "distinct (map fst (patterns (layer1 pattern_agent)))"
    by (simp add: pattern_agent_layers)
  have q: "qualifies demo_env (confidence_threshold (layer1 pattern_agent)) (lower ''Urgent call'')
         urgent_pattern"
    using urgent_qualifies by (simp add: pattern_agent_layers)
  have o: "list_all (passed_over demo_env (confidence_threshold (layer1 pattern_agent))
                 (lower ''Urgent call'')) [(''invalid'', invalid_pattern)]"
    using invalid_passed_over by (simp add: pattern_agent_layers)
  note t = first_qualifying_pattern_wins [OF v valid_passed(1) content_urgent e c
      pattern_agent_layers(2) d q o, of agent_store]
  from t have "fst (process demo_env 0 agent_store pattern_agent urgent_request)
       = \<lparr>category = ''urgent'', d_method = ''pattern_cached'', confidence = 0.95, cost = 0,
          layer = 1, suppressed = True\<rparr>
   \<and> patterns (layer1 (fst (snd (process demo_env 0 agent_store pattern_agent urgent_request))))
       = [(''invalid'', invalid_pattern), (''urgent'', urgent_pattern\<lparr>match_count := 1\<rparr>)]"
    by (simp add: urgent_pattern_def)
  with v e c d q o valid_passed(1) content_urgent pattern_agent_layers(2) show ?thesis
    by blast
qed

lemma lower_call_back: "lower ''Please call back'' = ''please call back''"
  by (simp add: lower_def lower_char_def)

lemma content_callback: "content_of callback_request = PyStr ''Please call back''"
  by (simp add: content_of_def callback_request_def dict_get_def)

lemma validate_callback:
  "validate 0 (layer0 demo_agent) callback_request =
     (Inr passed,
      Layer0Reactive_default
        \<lparr>validation_count := 1,
         rate_limits := [PyStr ''user123'' \<mapsto> \<lparr>count = 1, window_start = 0\<rparr>]\<rparr>)"
  by (simp add: validate_def callback_request_def dict_get_def Layer0Reactive_default_def
      Layer0Reactive_init_def check_rate_limit_def Let_def passed_def demo_agent_eq)

lemma match_callback:
  "match demo_env agent_store (layer1 demo_agent) ''Please call back''
     = (Inr None,
        (layer1 demo_agent)\<lparr>l1_match_count := 1, cache := [''please call back'' \<mapsto> no_match]\<rparr>)"
  by (simp add: match_def demo_env_def demo_agent_eq agent_store_eq Let_def empty_dict_def
      lower_call_back)

lemma simulated_callback:
  "cost_per_call l2 = 0.01 \<Longrightarrow> model_name l2 = ''simulated'' \<Longrightarrow>
   simulated_reason l2 ''Please call back'' = other_result"
  by (simp add: simulated_reason_def Let_def lower_call_back other_result_def)

lemma reason_callback:
  "reason (layer2 demo_agent) ''Please call back''
     = (other_result, Layer2Deliberative_default\<lparr>call_count := 1, l2_total_cost := 0.01\<rparr>)"
  by (simp add: reason_def simulated_callback Layer2Deliberative_default_def
      Layer2Deliberative_init_def Let_def demo_agent_eq)

lemma seen_agent_eq:
  "seen_agent =
     demo_agent
       \<lparr>layer0 := Layer0Reactive_default
          \<lparr>validation_count := 1,
           rate_limits := [PyStr ''user123'' \<mapsto> \<lparr>count = 1, window_start = 0\<rparr>]\<rparr>,
        layer2 := Layer2Deliberative_default\<lparr>call_count := 1, l2_total_cost := 0.01\<rparr>,
        layer1 := (layer1 demo_agent)
          \<lparr>l1_match_count := 1, cache := [''please call back'' \<mapsto> no_match]\<rparr>,
        cost_tracker := record_result 0 (cost_tracker demo_agent) (llm_decision other_result)\<rparr>"
  by (simp add: seen_agent_def
      process_Inr [OF process_try_miss [OF validate_callback valid_passed(1) content_callback
          match_callback reason_callback]] learn_if_confident_def other_result_def)

lemma validate_callback_again:
  "validate 1 (layer0 stale_agent) callback_request =
     (Inr passed,
      Layer0Reactive_default
        \<lparr>validation_count := 2,
         rate_limits := [PyStr ''user123'' \<mapsto> \<lparr>count = 2, window_start = 0\<rparr>]\<rparr>)"
  by (simp add: stale_agent_def seen_agent_eq validate_def callback_request_def dict_get_def
      Layer0Reactive_default_def Layer0Reactive_init_def check_rate_limit_def Let_def passed_def)

lemma match_callback_again:
  "match demo_env agent_store (layer1 stale_agent) ''Please call back''
     = (Inr None, (layer1 stale_agent)\<lparr>l1_match_count := 2\<rparr>)"
  by (simp add: stale_agent_def seen_agent_eq add_pattern_def match_def demo_env_def
      demo_agent_eq Let_def lower_call_back no_match_def)

lemma reason_callback_again:
  "reason (layer2 stale_agent) ''Please call back''
     = (other_result, Layer2Deliberative_default\<lparr>call_count := 2, l2_total_cost := 0.02\<rparr>)"
  by (simp add: stale_agent_def seen_agent_eq reason_def simulated_callback
      Layer2Deliberative_default_def Layer2Deliberative_init_def Let_def)

text \<open>
  Against C3 as stated: the agent has answered a content once, which cached "no match";
  a pattern that qualifies for this content is registered afterwards; the same content
  is then served from the cache and goes to layer 2.
\<close>

theorem stale_cache_counterexample:
  "patterns (layer1 stale_agent) = [(''callback'', callback_pattern)]
   \<and> qualifies demo_env (confidence_threshold (layer1 stale_agent)) (lower ''Please call back'')
         callback_pattern
   \<and> content_of callback_request = PyStr ''Please call back''
   \<and> fst (validate 1 (layer0 stale_agent) callback_request) = Inr passed
   \<and> valid passed
   \<and> layer (fst (process demo_env 1 agent_store stale_agent callback_request)) = 2
   \<and> \<not> suppressed (fst (process demo_env 1 agent_store stale_agent callback_request))
   \<and> category (fst (process demo_env 1 agent_store stale_agent callback_request)) = ''other''"
proof -
  have p: "patterns (layer1 stale_agent) = [(''callback'', callback_pattern)]"
    by (simp add: stale_agent_def seen_agent_eq add_pattern_def demo_agent_eq callback_pattern_def)
  have q: "qualifies demo_env (confidence_threshold (layer1 stale_agent)) (lower ''Please call back'')
         callback_pattern"
    by (simp add: stale_agent_def seen_agent_eq add_pattern_def demo_agent_eq callback_pattern_def
        qualifies_def demo_env_def demo_search_def lower_call_back lower_def lower_char_def)
  have d: "fst (process demo_env 1 agent_store stale_agent callback_request)
             = llm_decision other_result"
    by (simp add: process_Inr [OF process_try_miss [OF validate_callback_again valid_passed(1)
            content_callback match_callback_again reason_callback_again]])
  show ?thesis
    using p q content_callback valid_passed(1)
    by (simp add: d validate_callback_again llm_decision_def other_result_def)
qed

subsection \<open>A pattern on which the engine raises something else\<close>

lemma validate_big:
  "validate 0 (layer0 big_then_urgent_agent) urgent_request =
     (Inr passed,
      Layer0Reactive_default
        \<lparr>validation_count := 1,
         rate_limits := [PyStr ''user123'' \<mapsto> \<lparr>count = 1, window_start = 0\<rparr>]\<rparr>)"
  using validate_urgent by (simp add: big_then_urgent_agent_def)

lemma match_big:
  "match demo_env agent_store (layer1 big_then_urgent_agent) ''Urgent call''
     = (Inl EngineError, (layer1 big_then_urgent_agent)\<lparr>l1_match_count := 1\<rparr>)"
  by (simp add: match_def big_then_urgent_agent_def add_pattern_def demo_env_def
      demo_search_def demo_agent_eq Let_def)

lemma match_urgent_only:
  "fst (match demo_env agent_store (layer1 urgent_only_agent) ''Urgent call'')
     = Inr (Some \<lparr>matched = True, pattern_name = Some ''urgent'', m_category = Some ''urgent'',
                   m_confidence = 0.95, m_method = ''pattern_cached''\<rparr>)"
  by (simp add: match_def urgent_only_agent_def add_pattern_def demo_env_def
      demo_search_def demo_agent_eq Let_def lower_urgent_call lower_def lower_char_def)

text \<open>
  C9 does not hold of the code. The scan catches \<^verbatim>\<open>re.error\<close> only, and the engine
  raises \<^verbatim>\<open>OverflowError\<close> on the pattern \<^verbatim>\<open>a{99999999999}\<close>: with this pattern
  registered before the pattern \<^verbatim>\<open>urgent\<close>, \<open>match\<close> on the content \<^verbatim>\<open>Urgent call\<close> raises,
  the pattern \<^verbatim>\<open>urgent\<close> is never tried, and \<open>process\<close> returns the ERROR decision; with
  the pattern \<^verbatim>\<open>urgent\<close> alone the same content is matched by it.
\<close>

theorem overflow_pattern_aborts_scan:
  "map (\<lambda>entry. regex (snd entry)) (patterns (layer1 big_then_urgent_agent))
     = [''a{99999999999}'', ''urgent'']
   \<and> map (\<lambda>entry. regex (snd entry)) (patterns (layer1 urgent_only_agent)) = [''urgent'']
   \<and> re_search demo_env ''a{99999999999}'' (lower ''Urgent call'') = OtherError
   \<and> fst (match demo_env agent_store (layer1 big_then_urgent_agent) ''Urgent call'')
       = Inl EngineError
   \<and> fst (match demo_env agent_store (layer1 urgent_only_agent) ''Urgent call'')
       = Inr (Some \<lparr>matched = True, pattern_name = Some ''urgent'', m_category = Some ''urgent'',
                     m_confidence = 0.95, m_method = ''pattern_cached''\<rparr>)
   \<and> fst (process demo_env 0 agent_store big_then_urgent_agent urgent_request)
       = \<lparr>category = ''ERROR'', d_method = ''error_handler'', confidence = 0, cost = 0,
          layer = 0, suppressed = False\<rparr>"
proof -
  have ps: "map (\<lambda>entry. regex (snd entry)) (patterns (layer1 big_then_urgent_agent))
     = [''a{99999999999}'', ''urgent'']"
    by (simp add: big_then_urgent_agent_def add_pattern_def demo_agent_eq)
  have qs: "map (\<lambda>entry. regex (snd entry)) (patterns (layer1 urgent_only_agent))
     = [''urgent'']"
    by (simp add: urgent_only_agent_def add_pattern_def demo_agent_eq)
  have bad: "re_search demo_env ''a{99999999999}'' (lower ''Urgent call'') = OtherError"
    by (simp add: demo_env_def demo_search_def)
  have m: "fst (match demo_env agent_store (layer1 big_then_urgent_agent) ''Urgent call'')
       = Inl EngineError"
    by (simp add: match_big)
  have d: "fst (process demo_env 0 agent_store big_then_urgent_agent urgent_request)
       = error_decision"
    by (simp add: process_Inl [OF process_try_match_raises [OF validate_big valid_passed(1)
            content_urgent match_big]])
  show ?thesis
    using ps qs bad m match_urgent_only by (simp add: d error_decision_def)
qed

subsection \<open>Shared patterns\<close>

lemma scan_shared_first:
  "map_of xs cat = Some info \<Longrightarrow> shared_qualifies thr cl (cat, info) \<Longrightarrow>
   list_all (\<lambda>e. \<not> shared_qualifies thr cl e) (takeWhile (\<lambda>e. fst e \<noteq> cat) xs) \<Longrightarrow>
   scan_shared thr cl xs = Some (cat, info_confidence info)"
  by (induction xs) (auto simp: shared_qualifies_def info_confidence_def Let_def split: if_splits)

lemma scan_shared_none:
  "list_all (\<lambda>e. \<not> shared_qualifies thr cl e) xs \<Longrightarrow> scan_shared thr cl xs = None"
  by (induction xs) (auto simp: shared_qualifies_def info_confidence_def Let_def)

lemma match_shared:
  "str_encode ev (lower s) = Some encoded \<Longrightarrow>
   cache l1 (sha256_hex ev encoded) = None \<Longrightarrow>
   scan_patterns (re_search ev) (confidence_threshold l1) (lower s) (patterns l1) = Inr None \<Longrightarrow>
   learned_patterns (objects st (shared_state l1)) = Some shared \<Longrightarrow>
   scan_shared (confidence_threshold l1) (lower s) shared = Some (cat, c) \<Longrightarrow>
   match ev st l1 s
     = (Inr (Some \<lparr>matched = True, pattern_name = Some cat, m_category = Some cat,
                    m_confidence = c, m_method = ''pattern_shared''\<rparr>),
        l1\<lparr>l1_match_count := l1_match_count l1 + 1,
           l1_cost := l1_cost l1 + 0.0001,
           cache := (cache l1)(sha256_hex ev encoded \<mapsto>
                      \<lparr>matched = True, pattern_name = Some cat, m_category = Some cat,
                       m_confidence = c, m_method = ''pattern_shared''\<rparr>)\<rparr>)"
  by (simp add: match_def Let_def)

lemma learn_pattern_publishes:
  "learn_pattern now st l1 content cat c who = (Some pn, l1', st') \<Longrightarrow>
   c \<ge> 0.90
   \<and> learned_patterns (objects st' (shared_state l1)) = Some (shared_patterns st' (shared_state l1))
   \<and> map_of (shared_patterns st' (shared_state l1)) cat
       = Some \<lparr>si_confidence = Some c, si_learned_by = who, si_learned_at = Some now\<rparr>"
  by (auto simp: learn_pattern_def Let_def shared_patterns_def update_conv'
      split: if_splits list.splits)

text \<open>
  C4, amended. Let \<open>learn_pattern\<close> on one pattern layer publish the category \<open>cat\<close>
  with the confidence \<open>c\<close> (so \<open>c\<close> is at least 0.90), which gives the store \<open>st\<close>. Let
  \<open>b\<close> be an agent whose pattern layer holds the same shared dictionary and has a
  threshold of at most \<open>c\<close>; let a request pass the validation of \<open>b\<close> with the string
  \<open>s\<close> as its content, \<open>s\<close> containing \<open>cat\<close>, case ignored; let the lowercased \<open>s\<close> be
  encodable as UTF-8 (it holds no lone surrogate), let the cache of the layer
  have no entry for \<open>s\<close>, let no local pattern qualify (the engine raising nothing but
  \<^verbatim>\<open>re.error\<close>), and let no entry that stands before \<open>cat\<close> in the shared dictionary
  qualify. Then \<open>match\<close> returns the matched result with the method pattern_shared, the
  category \<open>cat\<close> and the confidence \<open>c\<close>, and \<open>process\<close> returns the decision with
  layer 1, cost 0, suppressed, the method pattern_shared, the confidence \<open>c\<close> and the
  category \<open>cat\<close> (unknown when \<open>cat\<close> is the empty string).
\<close>

theorem shared_pattern_is_matched:
  assumes "learn_pattern now0 st0 l1A content0 cat c who = (Some pn, l1A', st)"
    and "shared_state (layer1 b) = shared_state l1A"
    and "confidence_threshold (layer1 b) \<le> c"
    and "validate now (layer0 b) request = (Inr v, l0)" and "valid v"
    and "content_of request = PyStr s"
    and "str_in (lower cat) (lower s)"
    and "str_encode ev (lower s) = Some encoded"
    and "cache (layer1 b) (sha256_hex ev encoded) = None"
    and "list_all (passed_over ev (confidence_threshold (layer1 b)) (lower s))
           (patterns (layer1 b))"
    and "list_all (\<lambda>e. \<not> shared_qualifies (confidence_threshold (layer1 b)) (lower s) e)
           (takeWhile (\<lambda>e. fst e \<noteq> cat) (shared_patterns st (shared_state l1A)))"
  shows "c \<ge> 0.90
         \<and> fst (match ev st (layer1 b) s)
           = Inr (Some \<lparr>matched = True, pattern_name = Some cat, m_category = Some cat,
                         m_confidence = c, m_method = ''pattern_shared''\<rparr>)
         \<and> fst (process ev now st b request)
           = \<lparr>category = (if cat = [] then ''unknown'' else cat),
              d_method = ''pattern_shared'', confidence = c, cost = 0, layer = 1,
              suppressed = True\<rparr>"
proof -
  note pub = learn_pattern_publishes [OF assms(1)]
  let ?entry = "\<lparr>si_confidence = Some c, si_learned_by = who, si_learned_at = Some now0\<rparr>"
  from assms(3,7) have q: "shared_qualifies (confidence_threshold (layer1 b)) (lower s) (cat, ?entry)"
    by (simp add: shared_qualifies_def info_confidence_def)
  from pub have m: "map_of (shared_patterns st (shared_state l1A)) cat = Some ?entry"
    by simp
  have sc: "scan_shared (confidence_threshold (layer1 b)) (lower s)
              (shared_patterns st (shared_state l1A)) = Some (cat, c)"
    using scan_shared_first [OF m q assms(11)] by (simp add: info_confidence_def)
  from pub assms(2) have lp: "learned_patterns (objects st (shared_state (layer1 b)))
      = Some (shared_patterns st (shared_state l1A))"
    by simp
  note mt = match_shared [OF assms(8,9) scan_none_qualifying [OF assms(10)] lp sc]
  note t = process_try_hit [OF assms(4,5,6) mt]
  show ?thesis
    using pub by (simp add: mt process_Inr [OF t [simplified]] match_decision_def
        category_or_unknown_def)
qed

lemma learn_billing:
  "learn_pattern 0 demo_store demo_layer1 ''Billing question about invoice'' ''billing'' 0.92
     (Some ''agent_a'')
   = (Some ''learned_billing_billing'', learned_layer1, learned_store)"
  by (simp add: learned_layer1_def learned_store_def learn_pattern_def split_billing Let_def)

lemma learned_store_eq:
  "learned_store =
     \<lparr>objects = (\<lambda>a. empty_dict)
        (0 := \<lparr>learned_patterns = Some [(''billing'', billing_entry)], other_keys = []\<rparr>),
      next_addr = 1\<rparr>"
  by (simp add: learned_store_def learn_pattern_def split_billing Let_def demo_layer1_eq
      empty_dict_def billing_entry_def)

lemma agent_b_eq:
  "agent_b =
     \<lparr>agent_id = ''agent_b'', a_shared_state = 0, a_confidence_threshold = 0.85,
      layer0 = Layer0Reactive_default,
      layer1 = \<lparr>patterns = [], confidence_threshold = 0.85, shared_state = 0,
                cache = Map.empty, l1_match_count = 0, l1_cost = 0\<rparr>,
      layer2 = Layer2Deliberative_default, cost_tracker = CostTracker_init,
      suppression_count = 0\<rparr>"
  by (simp add: agent_b_def SPLAgent_init_def Layer1Tactical_init_def or_new_dict_def
      learned_store_eq truthy_def)

lemma strict_layer1_eq:
  "strict_layer1 = \<lparr>patterns = [], confidence_threshold = 0.95, shared_state = 0,
                cache = Map.empty, l1_match_count = 0, l1_cost = 0\<rparr>"
  by (simp add: strict_layer1_def Layer1Tactical_init_def or_new_dict_def
      learned_store_eq truthy_def)

lemma lower_billing_inquiry: "lower ''Billing inquiry'' = ''billing inquiry''"
  by (simp add: lower_def lower_char_def)

lemma lower_billing: "lower ''billing'' = ''billing''"
  by (simp add: lower_def lower_char_def)

lemma billing_contained: "str_in (lower ''billing'') (lower ''Billing inquiry'')"
  by (simp add: lower_billing_inquiry lower_billing)

lemma content_billing: "content_of billing_request = PyStr ''Billing inquiry''"
  by (simp add: content_of_def billing_request_def dict_get_def)

lemma validate_billing:
  "validate 5 (layer0 agent_b) billing_request =
     (Inr passed,
      Layer0Reactive_default
        \<lparr>validation_count := 1,
         rate_limits := [PyStr ''user9'' \<mapsto> \<lparr>count = 1, window_start = 5\<rparr>]\<rparr>)"
  by (simp add: validate_def billing_request_def dict_get_def Layer0Reactive_default_def
      Layer0Reactive_init_def check_rate_limit_def Let_def passed_def agent_b_eq)

theorem shared_pattern_is_matched_witness:
  "learn_pattern 0 demo_store demo_layer1 ''Billing question about invoice'' ''billing'' 0.92
     (Some ''agent_a'')
     = (Some ''learned_billing_billing'', learned_layer1, learned_store)
   \<and> shared_state (layer1 agent_b) = shared_state demo_layer1
   \<and> confidence_threshold (layer1 agent_b) \<le> 0.92
   \<and> fst (validate 5 (layer0 agent_b) billing_request) = Inr passed
   \<and> content_of billing_request = PyStr ''Billing inquiry''
   \<and> str_in (lower ''billing'') (lower ''Billing inquiry'')
   \<and> str_encode demo_env (lower ''Billing inquiry'') = Some (lower ''Billing inquiry'')
   \<and> cache (layer1 agent_b) (sha256_hex demo_env (lower ''Billing inquiry'')) = None
   \<and> patterns (layer1 agent_b) = []
   \<and> takeWhile (\<lambda>e. fst e \<noteq> ''billing'') (shared_patterns learned_store (shared_state demo_layer1))
       = []
   \<and> fst (process demo_env 5 learned_store agent_b billing_request)
       = \<lparr>category = ''billing'', d_method = ''pattern_shared'', confidence = 0.92, cost = 0,
          layer = 1, suppressed = True\<rparr>"
proof -
  have same: "shared_state (layer1 agent_b) = shared_state demo_layer1"
    by (simp add: agent_b_eq demo_layer1_eq)
  have thr: "confidence_threshold (layer1 agent_b) \<le> 0.92"
    by (simp add: agent_b_eq)
  have enc: "str_encode demo_env (lower ''Billing inquiry'') = Some (lower ''Billing inquiry'')"
    by (simp add: demo_env_def)
  have nc: "cache (layer1 agent_b) (sha256_hex demo_env (lower ''Billing inquiry'')) = None"
    by (simp add: agent_b_eq)
  have np: "patterns (layer1 agent_b) = []"
    by (simp add: agent_b_eq)
  have tw: "takeWhile (\<lambda>e. fst e \<noteq> ''billing'')
              (shared_patterns learned_store (shared_state demo_layer1)) = []"
    by (simp add: shared_patterns_def learned_store_eq demo_layer1_eq)
  have no_local: "list_all (passed_over demo_env (confidence_threshold (layer1 agent_b))
                    (lower ''Billing inquiry'')) (patterns (layer1 agent_b))"
    by (simp add: np)
  have first: "list_all (\<lambda>e. \<not> shared_qualifies (confidence_threshold (layer1 agent_b))
                             (lower ''Billing inquiry'') e)
           (takeWhile (\<lambda>e. fst e \<noteq> ''billing'')
              (shared_patterns learned_store (shared_state demo_layer1)))"
    by (simp add: tw)
  note t = shared_pattern_is_matched [OF learn_billing same thr validate_billing valid_passed(1)
      content_billing billing_contained enc nc no_local first]
  from t have d: "fst (process demo_env 5 learned_store agent_b billing_request)
       = \<lparr>category = ''billing'', d_method = ''pattern_shared'', confidence = 0.92, cost = 0,
          layer = 1, suppressed = True\<rparr>"
    by simp
  have v: "fst (validate 5 (layer0 agent_b) billing_request) = Inr passed"
    by (simp add: validate_billing)
  from learn_billing same thr v content_billing billing_contained enc nc np tw d
  show ?thesis by blast
qed

text \<open>
  Against C4 as stated: a layer with the threshold 0.95 holds the shared dictionary into
  which the category billing was published with the confidence 0.92; a content that
  contains billing, can be encoded, is not cached and meets no local pattern is not
  matched.
\<close>

theorem strict_threshold_counterexample:
  "learn_pattern 0 demo_store demo_layer1 ''Billing question about invoice'' ''billing'' 0.92
     (Some ''agent_a'')
     = (Some ''learned_billing_billing'', learned_layer1, learned_store)
   \<and> (0.92::real) \<ge> 0.90
   \<and> shared_state strict_layer1 = shared_state demo_layer1
   \<and> str_in (lower ''billing'') (lower ''Billing inquiry'')
   \<and> str_encode demo_env (lower ''Billing inquiry'') = Some (lower ''Billing inquiry'')
   \<and> cache strict_layer1 (sha256_hex demo_env (lower ''Billing inquiry'')) = None
   \<and> patterns strict_layer1 = []
   \<and> fst (match demo_env learned_store strict_layer1 ''Billing inquiry'') = Inr None"
proof -
  have m: "fst (match demo_env learned_store strict_layer1 ''Billing inquiry'') = Inr None"
    by (simp add: match_def strict_layer1_eq learned_store_eq demo_env_def Let_def
        lower_billing_inquiry lower_billing billing_entry_def)
  show ?thesis
    using learn_billing billing_contained m
    by (simp add: strict_layer1_eq demo_layer1_eq demo_env_def)
qed

text \<open>
  The constructor keeps the reference it is given only when the dictionary is not empty
  at that moment: for an empty one \<^verbatim>\<open>shared_state or {}\<close> allocates a dictionary of the
  layer's own, so layers built on one empty dictionary share nothing.
\<close>

theorem empty_shared_state_is_replaced:
  "shared_state (fst (Layer1Tactical_init threshold (Some a) st))
     = (if truthy (objects st a) then a else next_addr st)
   \<and> shared_state (layer1 (fst (SPLAgent_init ident (Some a) threshold st)))
     = (if truthy (objects st a) then a else next_addr st + 1)"
  by (simp add: Layer1Tactical_init_def SPLAgent_init_def or_new_dict_def new_dict_def
      truthy_def empty_dict_def)

end
